theory Spec2Isabelle
  imports Complex_Main
begin

section \<open>JavaScript values\<close>

text \<open>
  A JavaScript number is modelled by a rational: the arithmetic of the pages below is
  \<open>+\<close> and \<open>*\<close> on prices, quantities and points, taken exactly (rounding of doubles is
  not modelled). A field that may be \<open>undefined\<close> or \<open>null\<close> is an \<open>option\<close>.
\<close>

type_synonym number = rat

text \<open>Truthiness: \<open>undefined\<close>, \<open>null\<close>, \<open>0\<close> and the empty string are falsy.\<close>

definition truthy_num :: "number option \<Rightarrow> bool" where
  "truthy_num v = (case v of None \<Rightarrow> False | Some n \<Rightarrow> n \<noteq> 0)"

definition truthy_str :: "string option \<Rightarrow> bool" where
  "truthy_str v = (case v of None \<Rightarrow> False | Some t \<Rightarrow> t \<noteq> [])"

text \<open>\<open>a || b\<close> is \<open>a\<close> when \<open>a\<close> is truthy and \<open>b\<close> otherwise.\<close>

definition or_num :: "number option \<Rightarrow> number option \<Rightarrow> number option" where
  "or_num a b = (if truthy_num a then a else b)"

definition or_default :: "number option \<Rightarrow> number \<Rightarrow> number" where
  "or_default a d = (case a of None \<Rightarrow> d | Some n \<Rightarrow> if n \<noteq> 0 then n else d)"

definition or_text :: "string option \<Rightarrow> string \<Rightarrow> string" where
  "or_text a d = (case a of None \<Rightarrow> d | Some t \<Rightarrow> if t \<noteq> [] then t else d)"

text \<open>\<open>p?.f\<close>: the field of an object that may be missing.\<close>

definition opt_field :: "('a \<Rightarrow> 'b option) \<Rightarrow> 'a option \<Rightarrow> 'b option" where
  "opt_field f p = (case p of None \<Rightarrow> None | Some x \<Rightarrow> f x)"

text \<open>\<open>xs.reduce(f, init)\<close> folds from the left.\<close>

definition reduce :: "('b \<Rightarrow> 'a \<Rightarrow> 'b) \<Rightarrow> 'b \<Rightarrow> 'a list \<Rightarrow> 'b" where
  "reduce f init xs = foldl f init xs"

text \<open>A JSON object owned by the backend (user, brand, partner), kept opaque.\<close>

datatype obj = Obj string


section \<open>Data of the pages\<close>

text \<open>
  The fields of a product and of a cart line that the pages read. A line of the cart as
  it is posted to the backend has a product id, a quantity and a variant; an item of a
  cart also carries the product; an item of a displayed cart also carries its total.
\<close>

record product =
  price :: "number option"
  discount_price :: "number option"
  loyalty_points_earn :: "number option"

record cart_line =
  product_id :: string
  quantity :: number
  variant :: "string option"

record cart_item = cart_line +
  product :: "product option"

record display_item = cart_item +
  item_total :: number

record cart =
  items :: "display_item list"
  subtotal :: number
  loyalty_points_earnable :: number

definition empty_cart :: cart where
  "empty_cart = \<lparr>items = [], subtotal = 0, loyalty_points_earnable = 0\<rparr>"

text \<open>The two delivery forms of the checkout page.\<close>

record airport_details =
  terminal :: string
  gate :: string
  lounge :: string

record home_details =
  address :: string
  city :: string
  pincode :: string
  contact_number :: string


section \<open>Errors and asynchronous functions\<close>

text \<open>
  A rejected axios promise carries \<open>error.response?.data?.detail\<close>, which may be missing.
  \<open>JSON.parse\<close> raises a SyntaxError on malformed text.
\<close>

datatype http_error = HttpError "string option"

datatype js_error = RequestFailed http_error | SyntaxError

type_synonym 'a http = "http_error + 'a"

text \<open>
  A function of the source is a state transformer that either returns a value or throws.
  An \<open>async\<close> function is run from its call to its completion, the outcome of each
  request it awaits being an argument (\<open>Inl\<close> a rejection); interleavings with other
  handlers are not modelled.
\<close>

type_synonym ('s, 'a) prog = "'s \<Rightarrow> (js_error + 'a) \<times> 's"

definition returns :: "'a \<Rightarrow> ('s, 'a) prog" where
  "returns x s = (Inr x, s)"

definition throws :: "js_error \<Rightarrow> ('s, 'a) prog" where
  "throws e s = (Inl e, s)"

definition bind_prog :: "('s, 'a) prog \<Rightarrow> ('a \<Rightarrow> ('s, 'b) prog) \<Rightarrow> ('s, 'b) prog" where
  "bind_prog m f s = (case m s of (Inl e, s') \<Rightarrow> (Inl e, s') | (Inr x, s') \<Rightarrow> f x s')"

definition and_then :: "('s, 'a) prog \<Rightarrow> ('s, 'b) prog \<Rightarrow> ('s, 'b) prog" where
  "and_then m n = bind_prog m (\<lambda>_. n)"

definition try_catch :: "('s, 'a) prog \<Rightarrow> (js_error \<Rightarrow> ('s, 'a) prog) \<Rightarrow> ('s, 'a) prog" where
  "try_catch m h s = (case m s of (Inl e, s') \<Rightarrow> h e s' | (Inr x, s') \<Rightarrow> (Inr x, s'))"

definition try_finally :: "('s, 'a) prog \<Rightarrow> ('s, unit) prog \<Rightarrow> ('s, 'a) prog" where
  "try_finally m f s =
     (case m s of (r, s') \<Rightarrow>
        (case f s' of (Inl e, s'') \<Rightarrow> (Inl e, s'') | (Inr _, s'') \<Rightarrow> (r, s'')))"

definition modify :: "('s \<Rightarrow> 's) \<Rightarrow> ('s, unit) prog" where
  "modify f s = (Inr (), f s)"


section \<open>The browser\<close>

datatype toast = ToastError string | ToastSuccess string | ToastSuccessDesc string string
  | ToastInfo string

datatype http_method = GET | POST | DELETE

text \<open>
  The bodies of the requests: a line to add, the lines of an updated cart, an email and
  a password, a registration form, and the delivery type, delivery details, loyalty
  points and wallet amount of a checkout.
\<close>

datatype body = NoBody
  | AddLine cart_line
  | Lines "cart_line list"
  | Credentials string string
  | Form obj
  | Delivery string "airport_details + home_details" number number

text \<open>
  A request is its method, its path below \<open>API_URL\<close> and its body;
  \<open>RegisterCall\<close> is a call of \<open>register\<close> of the customer AuthContext with the name,
  email, mobile and password it is given.
\<close>

datatype request = Request http_method string body | RegisterCall string string string string

datatype access = GetItem string | SetItem string | RemoveItem string

fun key_of :: "access \<Rightarrow> string" where
  "key_of (GetItem k) = k"
| "key_of (SetItem k) = k"
| "key_of (RemoveItem k) = k"

text \<open>
  \<open>storage\<close> is localStorage and \<open>authorization\<close> is
  \<open>axios.defaults.headers.common['Authorization']\<close>. The other fields are histories:
  every localStorage call, every \<open>console.error\<close>, toast, request and navigation, in
  the order they happen.
\<close>

record browser =
  storage :: "string \<rightharpoonup> string"
  accesses :: "access list"
  authorization :: "string option"
  console :: "string list"
  toasts :: "toast list"
  requests :: "request list"
  navigations :: "string list"

definition getItem :: "string \<Rightarrow> ('a browser_scheme, string option) prog" where
  "getItem k s = (Inr (storage s k), s\<lparr>accesses := accesses s @ [GetItem k]\<rparr>)"

definition setItem :: "string \<Rightarrow> string \<Rightarrow> ('a browser_scheme, unit) prog" where
  "setItem k v = modify (\<lambda>s. s\<lparr>storage := (storage s)(k \<mapsto> v),
                                 accesses := accesses s @ [SetItem k]\<rparr>)"

definition removeItem :: "string \<Rightarrow> ('a browser_scheme, unit) prog" where
  "removeItem k = modify (\<lambda>s. s\<lparr>storage := (storage s)(k := None),
                                 accesses := accesses s @ [RemoveItem k]\<rparr>)"

definition set_authorization :: "string \<Rightarrow> ('a browser_scheme, unit) prog" where
  "set_authorization tok = modify (\<lambda>s. s\<lparr>authorization := Some (''Bearer '' @ tok)\<rparr>)"

definition delete_authorization :: "('a browser_scheme, unit) prog" where
  "delete_authorization = modify (\<lambda>s. s\<lparr>authorization := None\<rparr>)"

definition console_error :: "string \<Rightarrow> ('a browser_scheme, unit) prog" where
  "console_error msg = modify (\<lambda>s. s\<lparr>console := console s @ [msg]\<rparr>)"

definition show_toast :: "toast \<Rightarrow> ('a browser_scheme, unit) prog" where
  "show_toast t = modify (\<lambda>s. s\<lparr>toasts := toasts s @ [t]\<rparr>)"

definition navigate :: "string \<Rightarrow> ('a browser_scheme, unit) prog" where
  "navigate path = modify (\<lambda>s. s\<lparr>navigations := navigations s @ [path]\<rparr>)"

definition send :: "request \<Rightarrow> ('a browser_scheme, unit) prog" where
  "send rq = modify (\<lambda>s. s\<lparr>requests := requests s @ [rq]\<rparr>)"

text \<open>\<open>await axios.get(...)\<close> and the like: the request is issued, then its outcome awaited.\<close>

definition await :: "request \<Rightarrow> 'r http \<Rightarrow> ('a browser_scheme, 'r) prog" where
  "await rq outcome =
     and_then (send rq)
       (case outcome of Inl e \<Rightarrow> throws (RequestFailed e) | Inr response \<Rightarrow> returns response)"

definition touched :: "'a browser_scheme \<Rightarrow> string set" where
  "touched s = set (map key_of (accesses s))"


section \<open>context/CartContext.js\<close>

text \<open>\<open>isAuthenticated\<close> is what \<open>useAuth()\<close> gives the provider.\<close>

record cart_ctx = browser +
  isAuthenticated :: bool
  cart :: cart
  loading :: bool

definition setCart :: "cart \<Rightarrow> ('a cart_ctx_scheme, unit) prog" where
  "setCart c = modify (\<lambda>s. s\<lparr>cart := c\<rparr>)"

definition setLoading :: "bool \<Rightarrow> ('a cart_ctx_scheme, unit) prog" where
  "setLoading b = modify (\<lambda>s. s\<lparr>loading := b\<rparr>)"

definition fetchCart :: "cart http \<Rightarrow> ('a cart_ctx_scheme, unit) prog" where
  "fetchCart got =
     try_finally
       (try_catch
          (and_then (setLoading True)
             (bind_prog (await (Request GET ''/api/cart'' NoBody) got) setCart))
          (\<lambda>error. console_error ''Failed to fetch cart:''))
       (setLoading False)"

definition addToCart ::
  "string \<Rightarrow> number \<Rightarrow> string option \<Rightarrow> unit http \<Rightarrow> cart http \<Rightarrow> ('a cart_ctx_scheme, bool) prog"
where
  "addToCart productId qty var posted got =
     try_catch
       (and_then
          (await (Request POST ''/api/cart/add''
                    (AddLine \<lparr>product_id = productId, quantity = qty, variant = var\<rparr>)) posted)
          (and_then (fetchCart got) (returns True)))
       (\<lambda>error. and_then (console_error ''Failed to add to cart:'') (returns False))"

definition removeFromCart :: "string \<Rightarrow> unit http \<Rightarrow> cart http \<Rightarrow> ('a cart_ctx_scheme, bool) prog"
where
  "removeFromCart productId deleted got =
     try_catch
       (and_then (await (Request DELETE (''/api/cart/item/'' @ productId) NoBody) deleted)
          (and_then (fetchCart got) (returns True)))
       (\<lambda>error. and_then (console_error ''Failed to remove from cart:'') (returns False))"

definition updateCart ::
  "cart_line list \<Rightarrow> unit http \<Rightarrow> cart http \<Rightarrow> ('a cart_ctx_scheme, bool) prog"
where
  "updateCart lines posted got =
     try_catch
       (and_then (await (Request POST ''/api/cart/update'' (Lines lines)) posted)
          (and_then (fetchCart got) (returns True)))
       (\<lambda>error. and_then (console_error ''Failed to update cart:'') (returns False))"

definition clearCart :: "unit http \<Rightarrow> ('a cart_ctx_scheme, bool) prog" where
  "clearCart deleted =
     try_catch
       (and_then (await (Request DELETE ''/api/cart'' NoBody) deleted)
          (and_then (setCart empty_cart) (returns True)))
       (\<lambda>error. and_then (console_error ''Failed to clear cart:'') (returns False))"

text \<open>The effect on \<open>isAuthenticated\<close>.\<close>

definition cart_auth_effect :: "cart http \<Rightarrow> ('a cart_ctx_scheme, unit) prog" where
  "cart_auth_effect got s =
     (if isAuthenticated s then fetchCart got s else setCart empty_cart s)"

definition cartItemCount :: "'a cart_ctx_scheme \<Rightarrow> number" where
  "cartItemCount s = reduce (\<lambda>sum item. sum + quantity item) 0 (items (cart s))"


section \<open>pages/CartPage.js\<close>

text \<open>
  \<open>JSON.parse\<close> and \<open>JSON.stringify\<close> on the values the frontend stores: the list of
  the local cart, and a user or brand object. \<open>None\<close> is malformed text.
\<close>

record json =
  parse_cart :: "string \<Rightarrow> cart_item list option"
  stringify_cart :: "cart_item list \<Rightarrow> string"
  parse_obj :: "string \<Rightarrow> obj option"
  stringify_obj :: "obj \<Rightarrow> string"

definition JSON_parse :: "(string \<Rightarrow> 'v option) \<Rightarrow> string \<Rightarrow> ('s, 'v) prog" where
  "JSON_parse parse text = (case parse text of None \<Rightarrow> throws SyntaxError | Some v \<Rightarrow> returns v)"

record cart_page = cart_ctx +
  localCart :: "cart_item list"

definition setLocalCart :: "cart_item list \<Rightarrow> ('a cart_page_scheme, unit) prog" where
  "setLocalCart xs = modify (\<lambda>s. s\<lparr>localCart := xs\<rparr>)"

text \<open>The first effect: a guest's cart is loaded from localStorage.\<close>

definition load_effect :: "json \<Rightarrow> ('a cart_page_scheme, unit) prog" where
  "load_effect J s =
     (if \<not> isAuthenticated s then
        bind_prog (getItem ''localCart'')
          (\<lambda>raw. bind_prog (JSON_parse (parse_cart J) (or_text raw ''[]'')) setLocalCart) s
      else returns () s)"

text \<open>
  The second effect merges the local cart when the user logs in. Neither the
  \<open>updateCart\<close> calls of the \<open>forEach\<close> nor the final \<open>fetchCart\<close> is awaited: when
  the effect returns, each has run to its first \<open>await\<close>, so the requests are issued
  and \<open>loading\<close> is set; what happens at their completion is \<open>updateCart\<close>'s and
  \<open>fetchCart\<close>'s own.
\<close>

definition merge_line :: "display_item list \<Rightarrow> cart_item \<Rightarrow> cart_line list" where
  "merge_line server item =
     map (\<lambda>i. \<lparr>product_id = product_id i, quantity = quantity i, variant = None\<rparr>) server
     @ [\<lparr>product_id = product_id item, quantity = quantity item, variant = None\<rparr>]"

fun forEach :: "('a \<Rightarrow> ('s, unit) prog) \<Rightarrow> 'a list \<Rightarrow> ('s, unit) prog" where
  "forEach f [] = returns ()"
| "forEach f (x # xs) = and_then (f x) (forEach f xs)"

definition merge_effect :: "json \<Rightarrow> ('a cart_page_scheme, unit) prog" where
  "merge_effect J s =
     (if isAuthenticated s then
        bind_prog (getItem ''localCart'')
          (\<lambda>raw. bind_prog (JSON_parse (parse_cart J) (or_text raw ''[]''))
             (\<lambda>stored.
                if length stored > 0 then
                  and_then
                    (forEach (\<lambda>item. send (Request POST ''/api/cart/update''
                                               (Lines (merge_line (items (cart s)) item))))
                       stored)
                    (and_then (removeItem ''localCart'')
                       (and_then (setLoading True) (send (Request GET ''/api/cart'' NoBody))))
                else returns ())) s
      else returns () s)"

definition handleQuantityChange ::
  "json \<Rightarrow> string \<Rightarrow> number \<Rightarrow> unit http \<Rightarrow> cart http \<Rightarrow> ('a cart_page_scheme, unit) prog"
where
  "handleQuantityChange J productId newQuantity posted got s =
     (if newQuantity < 1 then returns () s
      else if \<not> isAuthenticated s then
        (let updated = map (\<lambda>item. if product_id item = productId
                                     then item\<lparr>quantity := newQuantity\<rparr> else item)
                           (localCart s)
         in and_then (setLocalCart updated)
              (setItem ''localCart'' (stringify_cart J updated)) s)
      else
        (let updatedItems =
               map (\<lambda>item. if product_id item = productId
                            then \<lparr>product_id = product_id item, quantity = newQuantity,
                                    variant = variant item\<rparr>
                            else \<lparr>product_id = product_id item, quantity = quantity item,
                                    variant = variant item\<rparr>)
                   (items (cart s))
         in bind_prog (updateCart updatedItems posted got) (\<lambda>_. returns ()) s))"

text \<open>
  The name handed to \<open>handleRemove\<close> is \<open>item.product?.name\<close>: undefined when the
  product or its name is missing, null, or a string.
  \<open>`Removed ${productName} from cart`\<close> prints the first as \<open>undefined\<close> and the
  second as \<open>null\<close>.
\<close>

datatype name_value = Undefined | Null | Name string

definition removed_message :: "name_value \<Rightarrow> string" where
  "removed_message productName =
     ''Removed ''
     @ (case productName of Undefined \<Rightarrow> ''undefined'' | Null \<Rightarrow> ''null'' | Name n \<Rightarrow> n)
     @ '' from cart''"

definition handleRemove ::
  "json \<Rightarrow> string \<Rightarrow> name_value \<Rightarrow> unit http \<Rightarrow> cart http \<Rightarrow> ('a cart_page_scheme, unit) prog"
where
  "handleRemove J productId productName deleted got s =
     (if \<not> isAuthenticated s then
        (let updated = filter (\<lambda>item. product_id item \<noteq> productId) (localCart s)
         in and_then (setLocalCart updated)
              (and_then (setItem ''localCart'' (stringify_cart J updated))
                 (show_toast (ToastSuccess (removed_message productName)))) s)
      else
        and_then (removeFromCart productId deleted got)
          (show_toast (ToastSuccess (removed_message productName))) s)"

definition cart_handleCheckout :: "('a cart_page_scheme, unit) prog" where
  "cart_handleCheckout s =
     (if \<not> isAuthenticated s then
        and_then (show_toast (ToastInfo ''Please sign in to checkout'')) (navigate ''/login'') s
      else navigate ''/checkout'' s)"

text \<open>
  \<open>item.product?.discount_price || item.product?.price || 0\<close> and
  \<open>item.product?.loyalty_points_earn || 0\<close>.
\<close>

definition unit_price :: "'a cart_item_scheme \<Rightarrow> number" where
  "unit_price item =
     or_default (or_num (opt_field discount_price (product item))
                        (opt_field price (product item))) 0"

definition unit_points :: "'a cart_item_scheme \<Rightarrow> number" where
  "unit_points item = or_default (opt_field loyalty_points_earn (product item)) 0"

definition displayCart :: "'a cart_page_scheme \<Rightarrow> cart" where
  "displayCart s =
     (if isAuthenticated s then cart s
      else \<lparr>items = map (\<lambda>item. \<lparr>product_id = product_id item, quantity = quantity item,
                                   variant = variant item, product = product item,
                                   item_total = unit_price item * quantity item\<rparr>)
                         (localCart s),
             subtotal = reduce (\<lambda>sum item. sum + unit_price item * quantity item) 0 (localCart s),
             loyalty_points_earnable =
               reduce (\<lambda>sum item. sum + unit_points item * quantity item) 0 (localCart s)\<rparr>)"


section \<open>pages/RegisterPage.js\<close>

record form_data =
  name :: string
  email :: string
  mobile :: string
  password :: string
  confirmPassword :: string

record register_page = browser +
  formData :: form_data
  loading :: bool

definition register_setLoading :: "bool \<Rightarrow> ('a register_page_scheme, unit) prog" where
  "register_setLoading b = modify (\<lambda>s. s\<lparr>loading := b\<rparr>)"

text \<open>\<open>error.response?.data?.detail || fallback\<close>.\<close>

definition detail_or :: "js_error \<Rightarrow> string \<Rightarrow> string" where
  "detail_or error fallback =
     (case error of RequestFailed (HttpError d) \<Rightarrow> or_text d fallback | SyntaxError \<Rightarrow> fallback)"

text \<open>\<open>registered\<close> is the outcome of the \<open>register\<close> call.\<close>

definition handleSubmit :: "obj http \<Rightarrow> ('a register_page_scheme, unit) prog" where
  "handleSubmit registered s =
     (if password (formData s) \<noteq> confirmPassword (formData s) then
        show_toast (ToastError ''Passwords do not match'') s
      else if length (password (formData s)) < 6 then
        show_toast (ToastError ''Password must be at least 6 characters'') s
      else
        and_then (register_setLoading True)
          (try_finally
             (try_catch
                (bind_prog
                   (await (RegisterCall (name (formData s)) (email (formData s))
                             (mobile (formData s)) (password (formData s))) registered)
                   (\<lambda>result. and_then
                      (show_toast (ToastSuccessDesc ''Welcome to JetShop!''
                                     ''You've earned 100 welcome points!''))
                      (navigate ''/'')))
                (\<lambda>error. show_toast (ToastError (detail_or error ''Registration failed''))))
             (register_setLoading False)) s)"


section \<open>The checkout page\<close>

text \<open>
  \<open>cart\<close> is what \<open>useCart()\<close> gives the page, \<open>location_href\<close> is
  \<open>window.location.href\<close> once the page has assigned it.
\<close>

record checkout_page = browser +
  cart :: cart
  loading :: bool
  calculating :: bool
  calculation :: "obj option"
  deliveryType :: string
  airportDetails :: airport_details
  homeDetails :: home_details
  useLoyaltyPoints :: number
  useWalletAmount :: number
  location_href :: "string option"

definition checkout_setLoading :: "bool \<Rightarrow> ('a checkout_page_scheme, unit) prog" where
  "checkout_setLoading b = modify (\<lambda>s. s\<lparr>loading := b\<rparr>)"

definition setCalculating :: "bool \<Rightarrow> ('a checkout_page_scheme, unit) prog" where
  "setCalculating b = modify (\<lambda>s. s\<lparr>calculating := b\<rparr>)"

definition setCalculation :: "obj \<Rightarrow> ('a checkout_page_scheme, unit) prog" where
  "setCalculation c = modify (\<lambda>s. s\<lparr>calculation := Some c\<rparr>)"

text \<open>
  \<open>{ delivery_details: { delivery_type: deliveryType,
  ...(deliveryType === 'airport' ? airportDetails : homeDetails) },
  use_loyalty_points, use_wallet_amount }\<close>
\<close>

definition checkout_body :: "'a checkout_page_scheme \<Rightarrow> body" where
  "checkout_body s =
     Delivery (deliveryType s)
       (if deliveryType s = ''airport'' then Inl (airportDetails s) else Inr (homeDetails s))
       (useLoyaltyPoints s) (useWalletAmount s)"

definition empty_cart_effect :: "('a checkout_page_scheme, unit) prog" where
  "empty_cart_effect s = (if length (items (cart s)) = 0 then navigate ''/cart'' s else returns () s)"

definition calculateTotals :: "obj http \<Rightarrow> ('a checkout_page_scheme, unit) prog" where
  "calculateTotals calculated s =
     try_finally
       (try_catch
          (and_then (setCalculating True)
             (bind_prog (await (Request POST ''/api/checkout/calculate'' (checkout_body s)) calculated)
                setCalculation))
          (\<lambda>error. console_error ''Failed to calculate:''))
       (setCalculating False) s"

definition totals_effect :: "obj http \<Rightarrow> ('a checkout_page_scheme, unit) prog" where
  "totals_effect calculated s =
     (if length (items (cart s)) > 0 then calculateTotals calculated s else returns () s)"

text \<open>\<open>paid\<close> is the outcome of the create-payment request: the checkout URL.\<close>

definition handleCheckout :: "string http \<Rightarrow> ('a checkout_page_scheme, unit) prog" where
  "handleCheckout paid s =
     (if deliveryType s = ''airport'' \<and> terminal (airportDetails s) = [] then
        show_toast (ToastError ''Please select a terminal'') s
      else if deliveryType s = ''home'' \<and>
              (address (homeDetails s) = [] \<or> city (homeDetails s) = []
               \<or> pincode (homeDetails s) = []) then
        show_toast (ToastError ''Please fill in all delivery details'') s
      else
        and_then (checkout_setLoading True)
          (try_catch
             (bind_prog
                (await (Request POST ''/api/checkout/create-payment'' (checkout_body s)) paid)
                (\<lambda>checkout_url. modify (\<lambda>s. s\<lparr>location_href := Some checkout_url\<rparr>)))
             (\<lambda>error. and_then
                (show_toast (ToastError (detail_or error ''Failed to create payment session'')))
                (checkout_setLoading False))) s)"


section \<open>pages/LoyaltyPage.js\<close>

text \<open>
  The progress is a quotient whose divisor may be 0, so its value is a JavaScript
  number in full: finite, an infinity, or NaN.
\<close>

datatype jsnum = Fin number | PosInf | NegInf | NaN

definition js_div :: "number \<Rightarrow> number \<Rightarrow> jsnum" where
  "js_div x y =
     (if y \<noteq> 0 then Fin (x / y)
      else if 0 < x then PosInf else if x < 0 then NegInf else NaN)"

fun js_times :: "jsnum \<Rightarrow> number \<Rightarrow> jsnum" where
  "js_times (Fin a) c = Fin (a * c)"
| "js_times PosInf c = (if 0 < c then PosInf else if c < 0 then NegInf else NaN)"
| "js_times NegInf c = (if 0 < c then NegInf else if c < 0 then PosInf else NaN)"
| "js_times NaN c = NaN"

fun Math_min :: "number \<Rightarrow> jsnum \<Rightarrow> jsnum" where
  "Math_min m (Fin a) = Fin (min m a)"
| "Math_min m PosInf = Fin m"
| "Math_min m NegInf = NegInf"
| "Math_min m NaN = NaN"

text \<open>\<open>xs.findIndex(p)\<close> is -1 when nothing matches; \<open>xs[i]\<close> is undefined out of range.\<close>

fun findIndex :: "('a \<Rightarrow> bool) \<Rightarrow> 'a list \<Rightarrow> int" where
  "findIndex p [] = -1"
| "findIndex p (x # xs) =
     (if p x then 0 else (let i = findIndex p xs in if i < 0 then -1 else i + 1))"

definition at_index :: "'a list \<Rightarrow> int \<Rightarrow> 'a option" where
  "at_index xs i = (if 0 \<le> i \<and> i < int (length xs) then Some (xs ! nat i) else None)"

record tier =
  name :: string
  minPoints :: number
  color :: string
  benefits :: "string list"

definition tiers :: "tier list" where
  "tiers =
     [\<lparr>name = ''Bronze'', minPoints = 0, color = ''bg-amber-600'',
        benefits = [''1x Points on purchases'', ''Access to member-only deals'']\<rparr>,
      \<lparr>name = ''Silver'', minPoints = 500, color = ''bg-gray-400'',
        benefits = [''1.5x Points'', ''5% discount on all orders'', ''Free shipping over $150'']\<rparr>,
      \<lparr>name = ''Gold'', minPoints = 1000, color = ''bg-yellow-500'',
        benefits = [''2x Points'', ''10% discount'', ''Free shipping over $100'',
                    ''Lounge access coupons'']\<rparr>,
      \<lparr>name = ''Platinum'', minPoints = 2000, color = ''bg-slate-800'',
        benefits = [''3x Points'', ''15% discount'', ''Free shipping always'',
                    ''Priority delivery'', ''VIP lounge access'']\<rparr>]"

text \<open>
  \<open>tier\<close> is \<open>loyaltyData?.tier\<close> and \<open>points\<close> is \<open>user?.loyalty_points\<close>; either may
  be missing.
\<close>

definition currentTierIndex :: "string option \<Rightarrow> int" where
  "currentTierIndex tier = findIndex (\<lambda>t. Some (name t) = tier) tiers"

definition nextTier :: "string option \<Rightarrow> tier option" where
  "nextTier tier =
     (if currentTierIndex tier < int (length tiers) - 1
      then at_index tiers (currentTierIndex tier + 1) else None)"

text \<open>The tier the page prints: \<open>loyaltyData?.tier || 'Bronze'\<close>.\<close>

definition tier_label :: "string option \<Rightarrow> string" where
  "tier_label tier = or_text tier ''Bronze''"

definition progressToNext :: "string option \<Rightarrow> number option \<Rightarrow> jsnum" where
  "progressToNext tier points =
     (case nextTier tier of
        Some next \<Rightarrow> Math_min 100 (js_times (js_div (or_default points 0) (minPoints next)) 100)
      | None \<Rightarrow> Fin 100)"


section \<open>The order detail page\<close>

definition getStatusColor :: "string \<Rightarrow> string" where
  "getStatusColor status =
     (if status = ''delivered'' then ''text-green-600''
      else if status = ''cancelled'' then ''text-red-600''
      else if status = ''out_for_delivery'' then ''text-blue-600''
      else ''text-amber-600'')"


section \<open>context/BrandAuthContext.js\<close>

record brand_auth = browser +
  user :: "obj option"
  brand :: "obj option"
  token :: "string option"
  loading :: bool

text \<open>The initial state: \<open>useState(localStorage.getItem('brand_token'))\<close> for the token.\<close>

definition brand_init :: "('a brand_auth_scheme, unit) prog" where
  "brand_init =
     bind_prog (getItem ''brand_token'')
       (\<lambda>stored. modify (\<lambda>s. s\<lparr>user := None, brand := None, token := stored,
                                  loading := True\<rparr>))"

definition brand_logout :: "('a brand_auth_scheme, unit) prog" where
  "brand_logout =
     and_then (removeItem ''brand_token'')
       (and_then delete_authorization
          (modify (\<lambda>s. s\<lparr>token := None, user := None, brand := None\<rparr>)))"

text \<open>\<open>me\<close> is the outcome of the profile request: the user and the brand.\<close>

definition brand_fetchProfile :: "(obj \<times> obj) http \<Rightarrow> ('a brand_auth_scheme, unit) prog" where
  "brand_fetchProfile me =
     try_finally
       (try_catch
          (bind_prog (await (Request GET ''/api/brand-admin/me'' NoBody) me)
             (\<lambda>(u, b). modify (\<lambda>s. s\<lparr>user := Some u, brand := Some b\<rparr>)))
          (\<lambda>error. and_then (console_error ''Failed to fetch brand profile:'') brand_logout))
       (modify (\<lambda>s. s\<lparr>loading := False\<rparr>))"

text \<open>The effect on \<open>token\<close>.\<close>

definition brand_token_effect :: "(obj \<times> obj) http \<Rightarrow> ('a brand_auth_scheme, unit) prog" where
  "brand_token_effect me s =
     (if truthy_str (token s) then
        and_then (set_authorization (or_text (token s) [])) (brand_fetchProfile me) s
      else modify (\<lambda>s. s\<lparr>loading := False\<rparr>) s)"

text \<open>
  \<open>login\<close> and \<open>register\<close> have no \<open>catch\<close>: a rejected request is thrown to the
  caller. The response carries the new token, the user and the brand.
\<close>

definition brand_login ::
  "string \<Rightarrow> string \<Rightarrow> (string \<times> obj \<times> obj) http
   \<Rightarrow> ('a brand_auth_scheme, string \<times> obj \<times> obj) prog"
where
  "brand_login mail pass logged =
     bind_prog (await (Request POST ''/api/brand-admin/login'' (Credentials mail pass)) logged)
       (\<lambda>(newToken, userData, otherData).
          and_then (setItem ''brand_token'' newToken)
            (and_then (set_authorization newToken)
               (and_then
                  (modify (\<lambda>s. s\<lparr>token := Some newToken, user := Some userData,
                                   brand := Some otherData\<rparr>))
                  (returns (newToken, userData, otherData)))))"

definition brand_register ::
  "obj \<Rightarrow> (string \<times> obj \<times> obj) http \<Rightarrow> ('a brand_auth_scheme, string \<times> obj \<times> obj) prog"
where
  "brand_register data registered =
     bind_prog (await (Request POST ''/api/brand-admin/register'' (Form data)) registered)
       (\<lambda>(newToken, userData, otherData).
          and_then (setItem ''brand_token'' newToken)
            (and_then (set_authorization newToken)
               (and_then
                  (modify (\<lambda>s. s\<lparr>token := Some newToken, user := Some userData,
                                   brand := Some otherData\<rparr>))
                  (returns (newToken, userData, otherData)))))"

definition brand_isAuthenticated :: "'a brand_auth_scheme \<Rightarrow> bool" where
  "brand_isAuthenticated s = (user s \<noteq> None)"


section \<open>The logistics provider\<close>

record logistics_auth = browser +
  user :: "obj option"
  partner :: "obj option"
  token :: "string option"
  loading :: bool

text \<open>The initial state: \<open>useState(localStorage.getItem('logistics_token'))\<close> for the token.\<close>

definition logistics_init :: "('a logistics_auth_scheme, unit) prog" where
  "logistics_init =
     bind_prog (getItem ''logistics_token'')
       (\<lambda>stored. modify (\<lambda>s. s\<lparr>user := None, partner := None, token := stored,
                                  loading := True\<rparr>))"

definition logistics_logout :: "('a logistics_auth_scheme, unit) prog" where
  "logistics_logout =
     and_then (removeItem ''logistics_token'')
       (and_then delete_authorization
          (modify (\<lambda>s. s\<lparr>token := None, user := None, partner := None\<rparr>)))"

text \<open>\<open>me\<close> is the outcome of the profile request: the user and the partner.\<close>

definition logistics_fetchProfile :: "(obj \<times> obj) http \<Rightarrow> ('a logistics_auth_scheme, unit) prog" where
  "logistics_fetchProfile me =
     try_finally
       (try_catch
          (bind_prog (await (Request GET ''/api/logistics/me'' NoBody) me)
             (\<lambda>(u, b). modify (\<lambda>s. s\<lparr>user := Some u, partner := Some b\<rparr>)))
          (\<lambda>error. and_then (console_error ''Failed to fetch logistics profile:'') logistics_logout))
       (modify (\<lambda>s. s\<lparr>loading := False\<rparr>))"

text \<open>The effect on \<open>token\<close>.\<close>

definition logistics_token_effect :: "(obj \<times> obj) http \<Rightarrow> ('a logistics_auth_scheme, unit) prog" where
  "logistics_token_effect me s =
     (if truthy_str (token s) then
        and_then (set_authorization (or_text (token s) [])) (logistics_fetchProfile me) s
      else modify (\<lambda>s. s\<lparr>loading := False\<rparr>) s)"

text \<open>
  \<open>login\<close> and \<open>register\<close> have no \<open>catch\<close>: a rejected request is thrown to the
  caller. The response carries the new token, the user and the partner.
\<close>

definition logistics_login ::
  "string \<Rightarrow> string \<Rightarrow> (string \<times> obj \<times> obj) http
   \<Rightarrow> ('a logistics_auth_scheme, string \<times> obj \<times> obj) prog"
where
  "logistics_login mail pass logged =
     bind_prog (await (Request POST ''/api/logistics/login'' (Credentials mail pass)) logged)
       (\<lambda>(newToken, userData, otherData).
          and_then (setItem ''logistics_token'' newToken)
            (and_then (set_authorization newToken)
               (and_then
                  (modify (\<lambda>s. s\<lparr>token := Some newToken, user := Some userData,
                                   partner := Some otherData\<rparr>))
                  (returns (newToken, userData, otherData)))))"

definition logistics_register ::
  "obj \<Rightarrow> (string \<times> obj \<times> obj) http \<Rightarrow> ('a logistics_auth_scheme, string \<times> obj \<times> obj) prog"
where
  "logistics_register data registered =
     bind_prog (await (Request POST ''/api/logistics/register'' (Form data)) registered)
       (\<lambda>(newToken, userData, otherData).
          and_then (setItem ''logistics_token'' newToken)
            (and_then (set_authorization newToken)
               (and_then
                  (modify (\<lambda>s. s\<lparr>token := Some newToken, user := Some userData,
                                   partner := Some otherData\<rparr>))
                  (returns (newToken, userData, otherData)))))"

definition logistics_isAuthenticated :: "'a logistics_auth_scheme \<Rightarrow> bool" where
  "logistics_isAuthenticated s = (user s \<noteq> None)"


section \<open>The admin provider\<close>

record admin_auth = browser +
  user :: "obj option"
  brand :: "obj option"
  role :: "string option"
  token :: "string option"
  loading :: bool

definition admin_init :: "('a admin_auth_scheme, unit) prog" where
  "admin_init =
     bind_prog (getItem ''admin_token'')
       (\<lambda>stored. modify (\<lambda>s. s\<lparr>user := None, brand := None, role := None, token := stored,
                                  loading := True\<rparr>))"

definition admin_logout :: "('a admin_auth_scheme, unit) prog" where
  "admin_logout =
     and_then (removeItem ''admin_token'')
       (and_then (removeItem ''admin_user'')
          (and_then (removeItem ''admin_role'')
             (and_then (removeItem ''admin_brand'')
                (and_then delete_authorization
                   (modify (\<lambda>s. s\<lparr>token := None, user := None, role := None,
                                    brand := None\<rparr>))))))"

text \<open>
  \<open>super_me\<close> is the outcome of the request for the super admin's profile (the user),
  \<open>brand_me\<close> of the request for the brand admin's (the user and the brand); the stored
  role decides which is made, if any.
\<close>

definition admin_fetchProfile ::
  "obj http \<Rightarrow> (obj \<times> obj) http \<Rightarrow> ('a admin_auth_scheme, unit) prog"
where
  "admin_fetchProfile super_me brand_me =
     try_finally
       (try_catch
          (bind_prog (getItem ''admin_role'')
             (\<lambda>storedRole.
                if storedRole = Some ''super_admin'' then
                  bind_prog (await (Request GET ''/api/super-admin/me'' NoBody) super_me)
                    (\<lambda>u. modify (\<lambda>s. s\<lparr>user := Some u, role := Some ''super_admin''\<rparr>))
                else if storedRole = Some ''brand_admin'' then
                  bind_prog (await (Request GET ''/api/brand-admin/me'' NoBody) brand_me)
                    (\<lambda>(u, b). modify (\<lambda>s. s\<lparr>user := Some u, brand := Some b,
                                              role := Some ''brand_admin''\<rparr>))
                else returns ()))
          (\<lambda>error. and_then (console_error ''Failed to fetch admin profile:'') admin_logout))
       (modify (\<lambda>s. s\<lparr>loading := False\<rparr>))"

text \<open>The effect on \<open>token\<close>: the stored user and role are used when both are there.\<close>

definition admin_token_effect ::
  "json \<Rightarrow> obj http \<Rightarrow> (obj \<times> obj) http \<Rightarrow> ('a admin_auth_scheme, unit) prog"
where
  "admin_token_effect J super_me brand_me s =
     (if truthy_str (token s) then
        and_then (set_authorization (or_text (token s) []))
          (bind_prog (getItem ''admin_user'') (\<lambda>storedUser.
           bind_prog (getItem ''admin_role'') (\<lambda>storedRole.
           bind_prog (getItem ''admin_brand'') (\<lambda>storedBrand.
             if truthy_str storedUser \<and> truthy_str storedRole then
               bind_prog (JSON_parse (parse_obj J) (or_text storedUser [])) (\<lambda>u.
               and_then (modify (\<lambda>s. s\<lparr>user := Some u, role := storedRole\<rparr>))
                 (and_then
                    (if truthy_str storedBrand then
                       bind_prog (JSON_parse (parse_obj J) (or_text storedBrand []))
                         (\<lambda>b. modify (\<lambda>s. s\<lparr>brand := Some b\<rparr>))
                     else returns ())
                    (modify (\<lambda>s. s\<lparr>loading := False\<rparr>))))
             else admin_fetchProfile super_me brand_me)))) s
      else modify (\<lambda>s. s\<lparr>loading := False\<rparr>) s)"

text \<open>The response of the unified login: the token, the user, the role, and maybe a brand.\<close>

definition admin_login ::
  "json \<Rightarrow> string \<Rightarrow> string \<Rightarrow> (string \<times> obj \<times> string \<times> obj option) http
   \<Rightarrow> ('a admin_auth_scheme, string \<times> obj \<times> string \<times> obj option) prog"
where
  "admin_login J mail pass logged =
     bind_prog (await (Request POST ''/api/super-admin/unified-login'' (Credentials mail pass)) logged)
       (\<lambda>(newToken, userData, userRole, brandData).
          and_then (setItem ''admin_token'' newToken)
         (and_then (setItem ''admin_user'' (stringify_obj J userData))
         (and_then (setItem ''admin_role'' userRole)
         (and_then (case brandData of
                      Some b \<Rightarrow> setItem ''admin_brand'' (stringify_obj J b)
                    | None \<Rightarrow> returns ())
         (and_then (set_authorization newToken)
         (and_then (modify (\<lambda>s. s\<lparr>token := Some newToken, user := Some userData,
                                    role := Some userRole\<rparr>))
         (and_then (case brandData of
                      Some b \<Rightarrow> modify (\<lambda>s. s\<lparr>brand := Some b\<rparr>)
                    | None \<Rightarrow> returns ())
            (returns (newToken, userData, userRole, brandData)))))))))"

definition admin_isAuthenticated :: "'a admin_auth_scheme \<Rightarrow> bool" where
  "admin_isAuthenticated s = (user s \<noteq> None)"

definition isAdmin :: "'a admin_auth_scheme \<Rightarrow> bool" where
  "isAdmin s = (role s = Some ''super_admin'')"

definition isBrand :: "'a admin_auth_scheme \<Rightarrow> bool" where
  "isBrand s = (role s = Some ''brand_admin'')"


section \<open>The properties, in the specification's words\<close>

text \<open>
  The unit price read as "the discount price if present, otherwise the price, otherwise
  0", and read as "the discount price if present and not 0, otherwise the price if
  present, otherwise 0"; the points of a product, 0 if absent.
\<close>

definition present_price :: "'a cart_item_scheme \<Rightarrow> number" where
  "present_price item =
     (case opt_field discount_price (product item) of
        Some d \<Rightarrow> d
      | None \<Rightarrow> (case opt_field price (product item) of Some p \<Rightarrow> p | None \<Rightarrow> 0))"

definition nonzero_price :: "'a cart_item_scheme \<Rightarrow> number" where
  "nonzero_price item =
     (case opt_field discount_price (product item) of
        Some d \<Rightarrow> if d \<noteq> 0 then d
                  else (case opt_field price (product item) of Some p \<Rightarrow> p | None \<Rightarrow> 0)
      | None \<Rightarrow> (case opt_field price (product item) of Some p \<Rightarrow> p | None \<Rightarrow> 0))"

definition present_points :: "'a cart_item_scheme \<Rightarrow> number" where
  "present_points item =
     (case opt_field loyalty_points_earn (product item) of Some n \<Rightarrow> n | None \<Rightarrow> 0)"

text \<open>The checks of the registration form, and the call it makes.\<close>

definition form_valid :: "form_data \<Rightarrow> bool" where
  "form_valid fd = (password fd = confirmPassword fd \<and> 6 \<le> length (password fd))"

definition register_call :: "form_data \<Rightarrow> request" where
  "register_call fd = RegisterCall (form_data.name fd) (email fd) (mobile fd) (password fd)"

text \<open>The checks of the checkout, and the request it makes.\<close>

definition airport_ready :: "'a checkout_page_scheme \<Rightarrow> bool" where
  "airport_ready s = (terminal (airportDetails s) \<noteq> [])"

definition home_ready :: "'a checkout_page_scheme \<Rightarrow> bool" where
  "home_ready s = (address (homeDetails s) \<noteq> [] \<and> city (homeDetails s) \<noteq> []
                   \<and> pincode (homeDetails s) \<noteq> [])"

definition payment_request :: "'a checkout_page_scheme \<Rightarrow> request" where
  "payment_request s = Request POST ''/api/checkout/create-payment'' (checkout_body s)"

text \<open>
  A function is confined to a set of keys when every localStorage call it makes names
  one of them, and the value stored under any other key is what it was.
\<close>

definition confined :: "string set \<Rightarrow> ('a browser_scheme, 'r) prog \<Rightarrow> bool" where
  "confined K m =
     (\<forall>s. touched (snd (m s)) \<subseteq> touched s \<union> K \<and>
          (\<forall>k. k \<notin> K \<longrightarrow> storage (snd (m s)) k = storage s k))"

definition spec_keys :: "string set" where
  "spec_keys = {''admin_token'', ''brand_token'', ''logistics_token'', ''localCart''}"

definition admin_keys :: "string set" where
  "admin_keys = {''admin_token'', ''admin_user'', ''admin_role'', ''admin_brand''}"

definition storage_keys :: "string set" where
  "storage_keys = {''admin_token'', ''admin_user'', ''admin_role'', ''admin_brand'',
                   ''brand_token'', ''logistics_token'', ''localCart''}"


section \<open>Sample states\<close>

definition plain_json :: json where
  "plain_json = \<lparr>parse_cart = (\<lambda>t. if t = ''[]'' then Some [] else None),
                  stringify_cart = (\<lambda>xs. ''[...]''),
                  parse_obj = (\<lambda>t. Some (Obj t)),
                  stringify_obj = (\<lambda>x. case x of Obj t \<Rightarrow> t)\<rparr>"

definition sample_cart_page :: "bool \<Rightarrow> cart_item list \<Rightarrow> cart_page" where
  "sample_cart_page auth xs =
     \<lparr>storage = Map.empty, accesses = [], authorization = None, console = [],
       toasts = [], requests = [], navigations = [],
       isAuthenticated = auth, cart_ctx.cart = empty_cart, cart_ctx.loading = False,
       localCart = xs\<rparr>"

definition free_sample :: cart_item where
  "free_sample =
     \<lparr>product_id = ''p1'', quantity = 1, variant = None,
       product = Some \<lparr>price = Some 10, discount_price = Some 0,
                        loyalty_points_earn = None\<rparr>\<rparr>"

definition perfume :: cart_item where
  "perfume =
     \<lparr>product_id = ''p2'', quantity = 2, variant = None,
       product = Some \<lparr>price = Some 80, discount_price = Some 60,
                        loyalty_points_earn = Some 5\<rparr>\<rparr>"

definition sample_register_page :: "string \<Rightarrow> string \<Rightarrow> register_page" where
  "sample_register_page pw confirm =
     \<lparr>storage = Map.empty, accesses = [], authorization = None, console = [],
       toasts = [], requests = [], navigations = [],
       formData = \<lparr>form_data.name = ''Asha'', email = ''asha@example.com'',
                    mobile = ''5550100'', password = pw, confirmPassword = confirm\<rparr>,
       register_page.loading = False\<rparr>"

definition sample_checkout_page :: "string \<Rightarrow> string \<Rightarrow> string \<Rightarrow> checkout_page" where
  "sample_checkout_page dtype term addr =
     \<lparr>storage = Map.empty, accesses = [], authorization = None, console = [],
       toasts = [], requests = [], navigations = [],
       checkout_page.cart = empty_cart, checkout_page.loading = False, calculating = False,
       calculation = None, deliveryType = dtype,
       airportDetails = \<lparr>terminal = term, gate = [], lounge = []\<rparr>,
       homeDetails = \<lparr>address = addr, city = ''Delhi'', pincode = ''110037'',
                       contact_number = []\<rparr>,
       useLoyaltyPoints = 0, useWalletAmount = 0, location_href = None\<rparr>"

text \<open>
  A signed-in provider: its keys are in the storage, beside a key \<open>theme\<close> that is
  not the frontend's.
\<close>

definition signed_in_brand :: brand_auth where
  "signed_in_brand =
     \<lparr>storage = [''brand_token'' \<mapsto> ''t1'', ''theme'' \<mapsto> ''dark''],
       accesses = [], authorization = Some ''Bearer t1'', console = [],
       toasts = [], requests = [], navigations = [],
       brand_auth.user = Some (Obj ''u''), brand_auth.brand = Some (Obj ''b''),
       brand_auth.token = Some ''t1'', brand_auth.loading = False\<rparr>"

definition signed_in_logistics :: logistics_auth where
  "signed_in_logistics =
     \<lparr>storage = [''logistics_token'' \<mapsto> ''t2'', ''theme'' \<mapsto> ''dark''],
       accesses = [], authorization = Some ''Bearer t2'', console = [],
       toasts = [], requests = [], navigations = [],
       logistics_auth.user = Some (Obj ''u''), partner = Some (Obj ''p''),
       logistics_auth.token = Some ''t2'', logistics_auth.loading = False\<rparr>"

definition signed_in_admin :: "string \<Rightarrow> admin_auth" where
  "signed_in_admin r =
     \<lparr>storage = [''admin_token'' \<mapsto> ''t3'', ''admin_user'' \<mapsto> ''u'', ''admin_role'' \<mapsto> r,
                  ''theme'' \<mapsto> ''dark''],
       accesses = [], authorization = Some ''Bearer t3'', console = [],
       toasts = [], requests = [], navigations = [],
       admin_auth.user = Some (Obj ''u''), admin_auth.brand = None, role = Some r,
       admin_auth.token = Some ''t3'', admin_auth.loading = False\<rparr>"


section \<open>Unfolding the programs\<close>

lemmas prog_defs = returns_def throws_def bind_prog_def and_then_def try_catch_def
  try_finally_def modify_def

lemmas browser_defs = getItem_def setItem_def removeItem_def set_authorization_def
  delete_authorization_def console_error_def show_toast_def navigate_def send_def await_def

lemmas cart_defs = fetchCart_def addToCart_def removeFromCart_def updateCart_def clearCart_def
  setCart_def setLoading_def cart_auth_effect_def

lemma reduce_sum: "reduce (\<lambda>sum x. sum + f x) a xs = a + sum_list (map f xs)"
  unfolding reduce_def by (induction xs arbitrary: a) (simp_all add: add.assoc)


section \<open>The displayed cart of a guest\<close>

lemma unit_price_nonzero: "unit_price item = nonzero_price item"
  by (simp add: unit_price_def nonzero_price_def or_default_def or_num_def truthy_num_def
      split: option.splits)

lemma unit_points_present: "unit_points item = present_points item"
  by (simp add: unit_points_def present_points_def or_default_def split: option.splits)

text \<open>
  C1, as amended. For a guest, the displayed cart has the items of the local cart, in
  order, each with an \<open>item_total\<close> that is its quantity times the product's
  \<open>discount_price\<close> if that is present and not 0, otherwise the product's \<open>price\<close> if
  present, otherwise 0; the subtotal is the sum of the item totals; and
  \<open>loyalty_points_earnable\<close> is the sum over the items of the quantity times the
  product's \<open>loyalty_points_earn\<close> (0 if absent).
\<close>

theorem displayCart_guest:
  "\<not> isAuthenticated s \<longrightarrow>
     map cart_item.truncate (items (displayCart s)) = map cart_item.truncate (localCart s) \<and>
     map item_total (items (displayCart s))
       = map (\<lambda>item. nonzero_price item * quantity item) (localCart s) \<and>
     subtotal (displayCart s) = sum_list (map item_total (items (displayCart s))) \<and>
     loyalty_points_earnable (displayCart s)
       = sum_list (map (\<lambda>item. present_points item * quantity item) (localCart s))"
  by (simp add: displayCart_def reduce_sum unit_price_nonzero unit_points_present
      cart_item.truncate_def comp_def)

text \<open>
  The theorem at a guest's cart of two lines: one of a product priced 10 with a discount
  price of 0, and two of a product priced 80, discounted to 60, that earns 5 points.
\<close>

theorem displayCart_guest_witness:
  "\<not> isAuthenticated (sample_cart_page False [free_sample, perfume]) \<and>
   map item_total (items (displayCart (sample_cart_page False [free_sample, perfume])))
     = [10, 120] \<and>
   subtotal (displayCart (sample_cart_page False [free_sample, perfume])) = 130 \<and>
   loyalty_points_earnable (displayCart (sample_cart_page False [free_sample, perfume])) = 10"
  using displayCart_guest [of "sample_cart_page False [free_sample, perfume]"]
  by (simp add: sample_cart_page_def free_sample_def perfume_def nonzero_price_def
      present_points_def opt_field_def)

text \<open>
  C1 as it is written fails where a discount price is present and 0: the product is
  charged at its price, here 10, not at 0.
\<close>

theorem displayCart_present_counterexample:
  "map item_total (items (displayCart (sample_cart_page False [free_sample]))) = [10] \<and>
   map (\<lambda>item. present_price item * quantity item) [free_sample] = [0] \<and>
   map item_total (items (displayCart (sample_cart_page False [free_sample])))
     \<noteq> map (\<lambda>item. present_price item * quantity item) [free_sample]"
  by (simp add: displayCart_def sample_cart_page_def free_sample_def present_price_def
      unit_price_def opt_field_def or_default_def or_num_def truthy_num_def)


section \<open>Failing cart requests\<close>

lemma fetchCart_fails:
  "fetchCart (Inl e) s =
     (Inr (), s\<lparr>requests := requests s @ [Request GET ''/api/cart'' NoBody],
                 console := console s @ [''Failed to fetch cart:''],
                 cart_ctx.loading := False\<rparr>)"
  by (simp add: cart_defs prog_defs browser_defs)

lemma addToCart_fails:
  "addToCart pid q v (Inl e) got s =
     (Inr False, s\<lparr>requests := requests s @ [Request POST ''/api/cart/add''
                         (AddLine \<lparr>product_id = pid, quantity = q, variant = v\<rparr>)],
                    console := console s @ [''Failed to add to cart:'']\<rparr>)"
  by (simp add: cart_defs prog_defs browser_defs)

lemma removeFromCart_fails:
  "removeFromCart pid (Inl e) got s =
     (Inr False, s\<lparr>requests := requests s @ [Request DELETE (''/api/cart/item/'' @ pid) NoBody],
                    console := console s @ [''Failed to remove from cart:'']\<rparr>)"
  by (simp add: cart_defs prog_defs browser_defs)

lemma updateCart_fails:
  "updateCart ls (Inl e) got s =
     (Inr False, s\<lparr>requests := requests s @ [Request POST ''/api/cart/update'' (Lines ls)],
                    console := console s @ [''Failed to update cart:'']\<rparr>)"
  by (simp add: cart_defs prog_defs browser_defs)

lemma clearCart_fails:
  "clearCart (Inl e) s =
     (Inr False, s\<lparr>requests := requests s @ [Request DELETE ''/api/cart'' NoBody],
                    console := console s @ [''Failed to clear cart:'']\<rparr>)"
  by (simp add: cart_defs prog_defs browser_defs)

lemma fetchCart_quiet:
  "\<not> isl (fst (fetchCart got s)) \<and> toasts (snd (fetchCart got s)) = toasts s"
  by (cases got) (simp_all add: cart_defs prog_defs browser_defs)

lemma addToCart_quiet:
  "\<not> isl (fst (addToCart pid q v posted got s))
   \<and> toasts (snd (addToCart pid q v posted got s)) = toasts s"
  by (cases posted; cases got) (simp_all add: cart_defs prog_defs browser_defs)

lemma removeFromCart_quiet:
  "\<not> isl (fst (removeFromCart pid deleted got s))
   \<and> toasts (snd (removeFromCart pid deleted got s)) = toasts s"
  by (cases deleted; cases got) (simp_all add: cart_defs prog_defs browser_defs)

lemma updateCart_quiet:
  "\<not> isl (fst (updateCart ls posted got s))
   \<and> toasts (snd (updateCart ls posted got s)) = toasts s"
  by (cases posted; cases got) (simp_all add: cart_defs prog_defs browser_defs)

lemma clearCart_quiet:
  "\<not> isl (fst (clearCart deleted s)) \<and> toasts (snd (clearCart deleted s)) = toasts s"
  by (cases deleted) (simp_all add: cart_defs prog_defs browser_defs)

lemma refetch_fails:
  "fst (addToCart pid q v (Inr ()) (Inl e) s) = Inr True"
  "fst (removeFromCart pid (Inr ()) (Inl e) s) = Inr True"
  "fst (updateCart ls (Inr ()) (Inl e) s) = Inr True"
  by (simp_all add: cart_defs prog_defs browser_defs)

text \<open>
  C2, as amended. When the request of a cart operation of CartContext fails, the error
  is caught: the operation does not throw, it logs the failure with \<open>console.error\<close>,
  leaves the cart as it was, and (but for \<open>fetchCart\<close>, which returns nothing and
  resets \<open>loading\<close>) returns \<open>false\<close>. When only the refetch after a successful
  request fails, \<open>fetchCart\<close> catches it and the operation returns \<open>true\<close>. No cart
  operation throws or shows a toast, whatever the outcome of its requests.
\<close>

theorem cart_operations_catch:
  "fetchCart (Inl e) s =
     (Inr (), s\<lparr>requests := requests s @ [Request GET ''/api/cart'' NoBody],
                 console := console s @ [''Failed to fetch cart:''],
                 cart_ctx.loading := False\<rparr>) \<and>
   addToCart pid q v (Inl e) got s =
     (Inr False, s\<lparr>requests := requests s @ [Request POST ''/api/cart/add''
                         (AddLine \<lparr>product_id = pid, quantity = q, variant = v\<rparr>)],
                    console := console s @ [''Failed to add to cart:'']\<rparr>) \<and>
   removeFromCart pid (Inl e) got s =
     (Inr False, s\<lparr>requests := requests s @ [Request DELETE (''/api/cart/item/'' @ pid) NoBody],
                    console := console s @ [''Failed to remove from cart:'']\<rparr>) \<and>
   updateCart ls (Inl e) got s =
     (Inr False, s\<lparr>requests := requests s @ [Request POST ''/api/cart/update'' (Lines ls)],
                    console := console s @ [''Failed to update cart:'']\<rparr>) \<and>
   clearCart (Inl e) s =
     (Inr False, s\<lparr>requests := requests s @ [Request DELETE ''/api/cart'' NoBody],
                    console := console s @ [''Failed to clear cart:'']\<rparr>) \<and>
   (fst (addToCart pid q v (Inr ()) (Inl e) s) = Inr True \<and>
    fst (removeFromCart pid (Inr ()) (Inl e) s) = Inr True \<and>
    fst (updateCart ls (Inr ()) (Inl e) s) = Inr True) \<and>
   (\<not> isl (fst (fetchCart got s)) \<and> toasts (snd (fetchCart got s)) = toasts s) \<and>
   (\<not> isl (fst (addToCart pid q v posted got s))
      \<and> toasts (snd (addToCart pid q v posted got s)) = toasts s) \<and>
   (\<not> isl (fst (removeFromCart pid posted got s))
      \<and> toasts (snd (removeFromCart pid posted got s)) = toasts s) \<and>
   (\<not> isl (fst (updateCart ls posted got s))
      \<and> toasts (snd (updateCart ls posted got s)) = toasts s) \<and>
   (\<not> isl (fst (clearCart posted s)) \<and> toasts (snd (clearCart posted s)) = toasts s)"
  by (intro conjI fetchCart_fails addToCart_fails removeFromCart_fails updateCart_fails
      clearCart_fails refetch_fails fetchCart_quiet addToCart_quiet removeFromCart_quiet updateCart_quiet
      clearCart_quiet)

text \<open>
  The theorem at a signed-in customer whose request to add a line is rejected: the
  operation returns \<open>false\<close>, one line is logged, and no toast is shown.
\<close>

theorem cart_operations_catch_witness:
  "fst (addToCart ''p1'' 1 None (Inl (HttpError None)) (Inr empty_cart)
          (sample_cart_page True [])) = Inr False \<and>
   console (snd (addToCart ''p1'' 1 None (Inl (HttpError None)) (Inr empty_cart)
          (sample_cart_page True []))) = [''Failed to add to cart:''] \<and>
   toasts (snd (addToCart ''p1'' 1 None (Inl (HttpError None)) (Inr empty_cart)
          (sample_cart_page True []))) = []"
  using cart_operations_catch [of "HttpError None" "sample_cart_page True []" "''p1''" 1 None
      "Inr empty_cart"]
  by (simp add: sample_cart_page_def)

text \<open>
  C2 as it is written fails: after each of the five operations has had its request
  rejected, no toast has been shown.
\<close>

theorem cart_toast_counterexample:
  "toasts (snd (fetchCart (Inl (HttpError None)) (sample_cart_page True []))) = [] \<and>
   toasts (snd (addToCart ''p1'' 1 None (Inl (HttpError None)) (Inl (HttpError None))
                  (sample_cart_page True []))) = [] \<and>
   toasts (snd (removeFromCart ''p1'' (Inl (HttpError None)) (Inl (HttpError None))
                  (sample_cart_page True []))) = [] \<and>
   toasts (snd (updateCart [] (Inl (HttpError None)) (Inl (HttpError None))
                  (sample_cart_page True []))) = [] \<and>
   toasts (snd (clearCart (Inl (HttpError None)) (sample_cart_page True []))) = []"
  by (simp add: cart_defs prog_defs browser_defs sample_cart_page_def)


section \<open>The registration form\<close>

lemma handleSubmit_valid:
  "form_valid (formData s) \<Longrightarrow>
   requests (snd (handleSubmit registered s)) = requests s @ [register_call (formData s)]"
  by (cases registered)
     (auto simp add: handleSubmit_def form_valid_def register_call_def prog_defs browser_defs
        register_setLoading_def)

lemma handleSubmit_invalid:
  "\<not> form_valid (formData s) \<Longrightarrow>
   handleSubmit registered s =
     (Inr (), s\<lparr>toasts := toasts s @
        [ToastError (if password (formData s) \<noteq> confirmPassword (formData s)
                     then ''Passwords do not match''
                     else ''Password must be at least 6 characters'')]\<rparr>)"
  by (auto simp add: handleSubmit_def form_valid_def prog_defs browser_defs)

text \<open>
  C3. When the registration form is submitted, the register call is made if and only if
  the password equals the confirmation and has at least 6 characters. If either check
  fails, an error toast is shown, no call is made, and nothing else of the page's state
  changes (the form and \<open>loading\<close> are what they were).
\<close>

theorem handleSubmit_validation:
  "(requests (snd (handleSubmit registered s)) = requests s @ [register_call (formData s)]
      \<longleftrightarrow> form_valid (formData s)) \<and>
   (\<not> form_valid (formData s) \<longrightarrow>
      requests (snd (handleSubmit registered s)) = requests s \<and>
      formData (snd (handleSubmit registered s)) = formData s \<and>
      (\<exists>msg. handleSubmit registered s = (Inr (), s\<lparr>toasts := toasts s @ [ToastError msg]\<rparr>)))"
proof (cases "form_valid (formData s)")
  case True
  then show ?thesis using handleSubmit_valid [of s registered] by simp
next
  case False
  then show ?thesis using handleSubmit_invalid [of s registered] by auto
qed

text \<open>
  The theorem at three forms: a password of 5 characters, a confirmation that differs,
  and a password of 6 characters that is confirmed.
\<close>

theorem handleSubmit_validation_witness:
  "\<not> form_valid (formData (sample_register_page ''abcde'' ''abcde'')) \<and>
   requests (snd (handleSubmit (Inr (Obj ''u'')) (sample_register_page ''abcde'' ''abcde''))) = [] \<and>
   \<not> form_valid (formData (sample_register_page ''abcdef'' ''abcdeg'')) \<and>
   requests (snd (handleSubmit (Inr (Obj ''u'')) (sample_register_page ''abcdef'' ''abcdeg''))) = [] \<and>
   form_valid (formData (sample_register_page ''abcdef'' ''abcdef'')) \<and>
   requests (snd (handleSubmit (Inr (Obj ''u'')) (sample_register_page ''abcdef'' ''abcdef'')))
     = [RegisterCall ''Asha'' ''asha@example.com'' ''5550100'' ''abcdef'']"
  using handleSubmit_validation [of "Inr (Obj ''u'')" "sample_register_page ''abcde'' ''abcde''"]
    handleSubmit_validation [of "Inr (Obj ''u'')" "sample_register_page ''abcdef'' ''abcdeg''"]
    handleSubmit_validation [of "Inr (Obj ''u'')" "sample_register_page ''abcdef'' ''abcdef''"]
  by (simp add: sample_register_page_def form_valid_def register_call_def)


section \<open>The checkout\<close>

lemma handleCheckout_requests:
  "requests (snd (handleCheckout paid s)) =
     (if (deliveryType s = ''airport'' \<and> \<not> airport_ready s)
         \<or> (deliveryType s = ''home'' \<and> \<not> home_ready s)
      then requests s else requests s @ [payment_request s])"
  by (cases paid)
     (auto simp add: handleCheckout_def payment_request_def airport_ready_def home_ready_def
        prog_defs browser_defs checkout_setLoading_def)

lemma handleCheckout_refused:
  "(deliveryType s = ''airport'' \<and> \<not> airport_ready s)
      \<or> (deliveryType s = ''home'' \<and> \<not> home_ready s) \<Longrightarrow>
   handleCheckout paid s =
     (Inr (), s\<lparr>toasts := toasts s @
        [ToastError (if deliveryType s = ''airport'' then ''Please select a terminal''
                     else ''Please fill in all delivery details'')]\<rparr>)"
  by (auto simp add: handleCheckout_def airport_ready_def home_ready_def prog_defs browser_defs)

text \<open>
  The page only ever holds the delivery types \<open>airport\<close> and \<open>home\<close>; with any other
  string neither check applies and the request is made.
\<close>

lemma handleCheckout_other_type:
  "deliveryType s \<noteq> ''airport'' \<Longrightarrow> deliveryType s \<noteq> ''home'' \<Longrightarrow>
   requests (snd (handleCheckout paid s)) = requests s @ [payment_request s]"
  by (simp add: handleCheckout_requests)

text \<open>
  C5. When the checkout is submitted with delivery type \<open>airport\<close>, the create-payment
  request is made exactly when a terminal is selected; with delivery type \<open>home\<close>,
  exactly when address, city and pincode are all non-empty. When the check of the
  chosen delivery type fails, no request is made, an error toast is shown, and nothing
  else of the page's state changes.
\<close>

theorem handleCheckout_validation:
  "(deliveryType s = ''airport'' \<longrightarrow>
      (requests (snd (handleCheckout paid s)) = requests s @ [payment_request s]
         \<longleftrightarrow> airport_ready s)) \<and>
   (deliveryType s = ''home'' \<longrightarrow>
      (requests (snd (handleCheckout paid s)) = requests s @ [payment_request s]
         \<longleftrightarrow> home_ready s)) \<and>
   (deliveryType s = ''airport'' \<and> \<not> airport_ready s
      \<or> deliveryType s = ''home'' \<and> \<not> home_ready s \<longrightarrow>
      requests (snd (handleCheckout paid s)) = requests s \<and>
      (\<exists>msg. handleCheckout paid s = (Inr (), s\<lparr>toasts := toasts s @ [ToastError msg]\<rparr>)))"
proof (intro conjI impI)
  assume "deliveryType s = ''airport''"
  then show "requests (snd (handleCheckout paid s)) = requests s @ [payment_request s]
         \<longleftrightarrow> airport_ready s"
    by (simp add: handleCheckout_requests)
next
  assume "deliveryType s = ''home''"
  then show "requests (snd (handleCheckout paid s)) = requests s @ [payment_request s]
         \<longleftrightarrow> home_ready s"
    by (simp add: handleCheckout_requests)
next
  assume r: "deliveryType s = ''airport'' \<and> \<not> airport_ready s
      \<or> deliveryType s = ''home'' \<and> \<not> home_ready s"
  then show "requests (snd (handleCheckout paid s)) = requests s"
    by (simp add: handleCheckout_requests)
  from handleCheckout_refused [OF r]
  show "\<exists>msg. handleCheckout paid s = (Inr (), s\<lparr>toasts := toasts s @ [ToastError msg]\<rparr>)"
    by blast
qed

text \<open>
  The theorem at four checkouts: to the airport without and with a terminal, and home
  without and with an address.
\<close>

theorem handleCheckout_validation_witness:
  "deliveryType (sample_checkout_page ''airport'' [] []) = ''airport'' \<and>
   \<not> airport_ready (sample_checkout_page ''airport'' [] []) \<and>
   handleCheckout (Inr ''https://pay'') (sample_checkout_page ''airport'' [] [])
     = (Inr (), (sample_checkout_page ''airport'' [] [])
                  \<lparr>toasts := [ToastError ''Please select a terminal'']\<rparr>) \<and>
   airport_ready (sample_checkout_page ''airport'' ''T1'' []) \<and>
   requests (snd (handleCheckout (Inr ''https://pay'') (sample_checkout_page ''airport'' ''T1'' [])))
     = [payment_request (sample_checkout_page ''airport'' ''T1'' [])] \<and>
   deliveryType (sample_checkout_page ''home'' [] []) = ''home'' \<and>
   \<not> home_ready (sample_checkout_page ''home'' [] []) \<and>
   handleCheckout (Inr ''https://pay'') (sample_checkout_page ''home'' [] [])
     = (Inr (), (sample_checkout_page ''home'' [] [])
                  \<lparr>toasts := [ToastError ''Please fill in all delivery details'']\<rparr>) \<and>
   home_ready (sample_checkout_page ''home'' [] ''12 MG Road'') \<and>
   requests (snd (handleCheckout (Inr ''https://pay'') (sample_checkout_page ''home'' [] ''12 MG Road'')))
     = [payment_request (sample_checkout_page ''home'' [] ''12 MG Road'')]"
proof -
  let ?a0 = "sample_checkout_page ''airport'' [] []"
  let ?a1 = "sample_checkout_page ''airport'' ''T1'' []"
  let ?h0 = "sample_checkout_page ''home'' [] []"
  let ?h1 = "sample_checkout_page ''home'' [] ''12 MG Road''"
  have a0: "deliveryType ?a0 = ''airport'' \<and> \<not> airport_ready ?a0 \<and> toasts ?a0 = []"
   and a1: "deliveryType ?a1 = ''airport'' \<and> airport_ready ?a1 \<and> requests ?a1 = []"
   and h0: "deliveryType ?h0 = ''home'' \<and> \<not> home_ready ?h0 \<and> toasts ?h0 = []"
   and h1: "deliveryType ?h1 = ''home'' \<and> home_ready ?h1 \<and> requests ?h1 = []"
    by (simp_all add: sample_checkout_page_def airport_ready_def home_ready_def)
  have m0: "handleCheckout (Inr ''https://pay'') ?a0
              = (Inr (), ?a0\<lparr>toasts := [ToastError ''Please select a terminal'']\<rparr>)"
    using handleCheckout_validation [of ?a0 "Inr ''https://pay''"] a0
    by (auto simp add: handleCheckout_refused)
  have m1: "requests (snd (handleCheckout (Inr ''https://pay'') ?a1)) = [payment_request ?a1]"
    using handleCheckout_validation [of ?a1 "Inr ''https://pay''"] a1 by simp
  have m2: "handleCheckout (Inr ''https://pay'') ?h0
              = (Inr (), ?h0\<lparr>toasts := [ToastError ''Please fill in all delivery details'']\<rparr>)"
    using handleCheckout_validation [of ?h0 "Inr ''https://pay''"] h0
    by (auto simp add: handleCheckout_refused)
  have m3: "requests (snd (handleCheckout (Inr ''https://pay'') ?h1)) = [payment_request ?h1]"
    using handleCheckout_validation [of ?h1 "Inr ''https://pay''"] h1 by simp
  from a0 a1 h0 h1 m0 m1 m2 m3 show ?thesis by simp
qed


section \<open>The loyalty progress\<close>

lemma tier_indices:
  "currentTierIndex (Some ''Bronze'') = 0" "currentTierIndex (Some ''Silver'') = 1"
  "currentTierIndex (Some ''Gold'') = 2" "currentTierIndex (Some ''Platinum'') = 3"
  by (simp_all add: currentTierIndex_def tiers_def)

lemma progress_missing_points: "progressToNext tier None = progressToNext tier (Some 0)"
  by (simp add: progressToNext_def or_default_def split: option.splits)

lemma unknown_tier_index:
  "tier \<notin> {Some ''Bronze'', Some ''Silver'', Some ''Gold'', Some ''Platinum''} \<Longrightarrow>
   currentTierIndex tier = -1"
  by (auto simp add: currentTierIndex_def tiers_def)

lemma progressToNext_unknown_tier:
  "tier \<notin> {Some ''Bronze'', Some ''Silver'', Some ''Gold'', Some ''Platinum''} \<Longrightarrow>
   progressToNext tier (Some p) = (if 0 < p then Fin 100 else if p < 0 then NegInf else NaN)"
  by (simp add: progressToNext_def nextTier_def unknown_tier_index at_index_def js_div_def
      or_default_def tiers_def)

lemma progressToNext_named_tiers:
  "progressToNext (Some ''Bronze'') (Some p) = Fin (min 100 (p / 500 * 100))"
  "progressToNext (Some ''Silver'') (Some p) = Fin (min 100 (p / 1000 * 100))"
  "progressToNext (Some ''Gold'') (Some p) = Fin (min 100 (p / 2000 * 100))"
  "progressToNext (Some ''Platinum'') (Some p) = Fin 100"
  by (simp_all add: progressToNext_def nextTier_def tier_indices at_index_def js_div_def
      or_default_def tiers_def)

lemma tier_minimums:
  "map (\<lambda>t. (tier.name t, minPoints t)) tiers
     = [(''Bronze'', 0), (''Silver'', 500), (''Gold'', 1000), (''Platinum'', 2000)]"
  by (simp add: tiers_def)

text \<open>
  C6. The tier minimums are Bronze 0, Silver 500, Gold 1000 and Platinum 2000. For a
  user whose tier is Bronze, Silver or Gold, with \<open>p\<close> loyalty points, the progress is
  \<open>min(100, p / m * 100)\<close> where \<open>m\<close> is the minimum of the next tier; for a Platinum
  user it is 100; missing points count as 0. For every other user that is not Platinum
  the page departs from this. When the tier is none of the four names, and so whenever
  the loyalty data are missing (before they are loaded, and after the request for them
  has failed), the index found is -1 and the next tier is Bronze itself, with minimum
  0: the progress is 100 for positive points and NaN for no points. The page prints
  the tier of such a user as Bronze, and with 250 points shows 100 where a Bronze user
  has 50.
\<close>

theorem progressToNext_every_tier:
  "map (\<lambda>t. (tier.name t, minPoints t)) tiers
     = [(''Bronze'', 0), (''Silver'', 500), (''Gold'', 1000), (''Platinum'', 2000)] \<and>
   progressToNext (Some ''Bronze'') (Some p) = Fin (min 100 (p / 500 * 100)) \<and>
   progressToNext (Some ''Silver'') (Some p) = Fin (min 100 (p / 1000 * 100)) \<and>
   progressToNext (Some ''Gold'') (Some p) = Fin (min 100 (p / 2000 * 100)) \<and>
   progressToNext (Some ''Platinum'') (Some p) = Fin 100 \<and>
   progressToNext tier None = progressToNext tier (Some 0) \<and>
   (tier \<notin> {Some ''Bronze'', Some ''Silver'', Some ''Gold'', Some ''Platinum''} \<longrightarrow>
      currentTierIndex tier = -1 \<and>
      map_option tier.name (nextTier tier) = Some ''Bronze'' \<and>
      progressToNext tier (Some p) = (if 0 < p then Fin 100 else if p < 0 then NegInf else NaN)) \<and>
   (tier_label None = ''Bronze'' \<and>
    progressToNext None (Some 250) = Fin 100 \<and>
    progressToNext None (Some 0) = NaN \<and>
    progressToNext (Some (tier_label None)) (Some 250) = Fin 50)"
proof -
  have unknown:
    "tier \<notin> {Some ''Bronze'', Some ''Silver'', Some ''Gold'', Some ''Platinum''} \<longrightarrow>
       currentTierIndex tier = -1 \<and>
       map_option tier.name (nextTier tier) = Some ''Bronze'' \<and>
       progressToNext tier (Some p) = (if 0 < p then Fin 100 else if p < 0 then NegInf else NaN)"
    by (simp add: unknown_tier_index progressToNext_unknown_tier nextTier_def at_index_def
        tiers_def)
  have missing:
    "tier_label None = ''Bronze'' \<and> progressToNext None (Some 250) = Fin 100 \<and>
     progressToNext None (Some 0) = NaN \<and>
     progressToNext (Some (tier_label None)) (Some 250) = Fin 50"
    by (simp add: tier_label_def or_text_def progressToNext_unknown_tier
        progressToNext_named_tiers)
  show ?thesis
    using unknown missing tier_minimums progressToNext_named_tiers [of p]
      progress_missing_points [of tier]
    by blast
qed

text \<open>
  The theorem at a user with 250 points whose loyalty data are missing, and at one
  whose tier is the unknown name \<open>Diamond\<close>.
\<close>

theorem progressToNext_every_tier_witness:
  "None \<notin> {Some ''Bronze'', Some ''Silver'', Some ''Gold'', Some ''Platinum''} \<and>
   currentTierIndex None = -1 \<and>
   progressToNext None (Some 250) = Fin 100 \<and>
   progressToNext (Some ''Bronze'') (Some 250) = Fin 50 \<and>
   Some ''Diamond'' \<notin> {Some ''Bronze'', Some ''Silver'', Some ''Gold'', Some ''Platinum''} \<and>
   progressToNext (Some ''Diamond'') (Some (-5)) = NegInf"
  using progressToNext_every_tier [of 250 None]
    progressToNext_every_tier [of "-5" "Some ''Diamond''"]
  by simp


section \<open>The status colour\<close>

text \<open>
  C7. \<open>getStatusColor\<close> is defined on every status string: it is \<open>text-green-600\<close> for
  \<open>delivered\<close>, \<open>text-red-600\<close> for \<open>cancelled\<close>, \<open>text-blue-600\<close> for
  \<open>out_for_delivery\<close>, and \<open>text-amber-600\<close> for every other string.
\<close>

theorem getStatusColor_cases:
  "getStatusColor ''delivered'' = ''text-green-600'' \<and>
   getStatusColor ''cancelled'' = ''text-red-600'' \<and>
   getStatusColor ''out_for_delivery'' = ''text-blue-600'' \<and>
   (status \<notin> {''delivered'', ''cancelled'', ''out_for_delivery''} \<longrightarrow>
      getStatusColor status = ''text-amber-600'')"
  by (simp add: getStatusColor_def)

text \<open>The theorem at the status \<open>pending\<close>.\<close>

theorem getStatusColor_cases_witness:
  "''pending'' \<notin> {''delivered'', ''cancelled'', ''out_for_delivery''} \<and>
   getStatusColor ''pending'' = ''text-amber-600''"
  using getStatusColor_cases [of "''pending''"] by simp


section \<open>The count of the cart\<close>

text \<open>
  C8. \<open>cartItemCount\<close> is the sum of the quantities of the items of the cart, and 0 for
  the empty cart.
\<close>

theorem cartItemCount_sum:
  "cartItemCount s = sum_list (map quantity (items (cart_ctx.cart s))) \<and>
   cartItemCount (s\<lparr>cart_ctx.cart := empty_cart\<rparr>) = 0"
  by (simp add: cartItemCount_def reduce_sum empty_cart_def)


section \<open>Changing a quantity in a guest's cart\<close>

text \<open>
  C9. For a guest, \<open>handleQuantityChange(productId, q)\<close> with \<open>q < 1\<close> returns with the
  state as it was: no state update and no storage call. With \<open>q \<ge> 1\<close> the local cart
  keeps its length and order, every item whose \<open>product_id\<close> is \<open>productId\<close> gets the
  quantity \<open>q\<close> and is otherwise unchanged, and every other item is unchanged; the new
  list is written to localStorage under \<open>localCart\<close> by one \<open>setItem\<close>, and nothing
  else of the state changes.
\<close>

theorem handleQuantityChange_guest:
  "\<not> isAuthenticated s \<longrightarrow>
     (q < 1 \<longrightarrow> handleQuantityChange J pid q posted got s = (Inr (), s)) \<and>
     (1 \<le> q \<longrightarrow>
        length (localCart (snd (handleQuantityChange J pid q posted got s))) = length (localCart s) \<and>
        (\<forall>i < length (localCart s).
           localCart (snd (handleQuantityChange J pid q posted got s)) ! i =
             (if product_id (localCart s ! i) = pid
              then (localCart s ! i)\<lparr>quantity := q\<rparr> else localCart s ! i)) \<and>
        handleQuantityChange J pid q posted got s =
          (Inr (),
           s\<lparr>localCart := localCart (snd (handleQuantityChange J pid q posted got s)),
             storage := (storage s)(''localCart'' \<mapsto>
               stringify_cart J (localCart (snd (handleQuantityChange J pid q posted got s)))),
             accesses := accesses s @ [SetItem ''localCart'']\<rparr>))"
  by (simp add: handleQuantityChange_def prog_defs browser_defs setLocalCart_def Let_def)

text \<open>
  The theorem at a guest's cart of two lines: a quantity of 0 changes nothing, a
  quantity of 3 for the second product changes that line only and stores the new list.
\<close>

theorem handleQuantityChange_guest_witness:
  "\<not> isAuthenticated (sample_cart_page False [free_sample, perfume]) \<and>
   (0::number) < 1 \<and> (1::number) \<le> 3 \<and>
   handleQuantityChange plain_json ''p2'' 0 (Inr ()) (Inr empty_cart)
       (sample_cart_page False [free_sample, perfume])
     = (Inr (), sample_cart_page False [free_sample, perfume]) \<and>
   handleQuantityChange plain_json ''p2'' 3 (Inr ()) (Inr empty_cart)
       (sample_cart_page False [free_sample, perfume])
     = (Inr (), (sample_cart_page False [free_sample, perfume])
          \<lparr>localCart := [free_sample, perfume\<lparr>quantity := 3\<rparr>],
            storage := [''localCart'' \<mapsto>
               stringify_cart plain_json [free_sample, perfume\<lparr>quantity := 3\<rparr>]],
            accesses := [SetItem ''localCart'']\<rparr>)"
proof -
  let ?s = "sample_cart_page False [free_sample, perfume]"
  let ?r = "handleQuantityChange plain_json ''p2'' 3 (Inr ()) (Inr empty_cart) ?s"
  have g: "\<not> isAuthenticated ?s" by (simp add: sample_cart_page_def)
  have l: "localCart ?s = [free_sample, perfume]" "storage ?s = Map.empty" "accesses ?s = []"
    by (simp_all add: sample_cart_page_def)
  have low: "handleQuantityChange plain_json ''p2'' 0 (Inr ()) (Inr empty_cart) ?s = (Inr (), ?s)"
    using handleQuantityChange_guest [of ?s 0 plain_json "''p2''" "Inr ()" "Inr empty_cart"] g
    by simp
  have all: "length (localCart (snd ?r)) = 2 \<and> localCart (snd ?r) ! 0 = free_sample
            \<and> localCart (snd ?r) ! 1 = perfume\<lparr>quantity := 3\<rparr>
            \<and> ?r = (Inr (), ?s\<lparr>localCart := localCart (snd ?r),
                 storage := [''localCart'' \<mapsto> stringify_cart plain_json (localCart (snd ?r))],
                 accesses := [SetItem ''localCart'']\<rparr>)"
    using handleQuantityChange_guest [of ?s 3 plain_json "''p2''" "Inr ()" "Inr empty_cart"] g l
    by (simp add: free_sample_def perfume_def)
  then have c: "localCart (snd ?r) = [free_sample, perfume\<lparr>quantity := 3\<rparr>]"
    by (cases "localCart (snd ?r)"; simp) (case_tac list; simp)
  from all have "?r = (Inr (), ?s\<lparr>localCart := localCart (snd ?r),
                 storage := [''localCart'' \<mapsto> stringify_cart plain_json (localCart (snd ?r))],
                 accesses := [SetItem ''localCart'']\<rparr>)"
    by blast
  with c have "?r = (Inr (), ?s\<lparr>localCart := [free_sample, perfume\<lparr>quantity := 3\<rparr>],
                 storage := [''localCart'' \<mapsto>
                    stringify_cart plain_json [free_sample, perfume\<lparr>quantity := 3\<rparr>]],
                 accesses := [SetItem ''localCart'']\<rparr>)"
    by simp
  with g low show ?thesis by simp
qed


section \<open>A failed profile fetch\<close>

lemmas brand_defs = brand_init_def brand_logout_def brand_fetchProfile_def
  brand_token_effect_def brand_login_def brand_register_def

lemmas logistics_defs = logistics_init_def logistics_logout_def logistics_fetchProfile_def
  logistics_token_effect_def logistics_login_def logistics_register_def

lemmas admin_defs = admin_init_def admin_logout_def admin_fetchProfile_def
  admin_token_effect_def admin_login_def JSON_parse_def

lemma brand_fetchProfile_fails:
  "brand_fetchProfile (Inl e) s =
     (Inr (), s\<lparr>requests := requests s @ [Request GET ''/api/brand-admin/me'' NoBody],
                 console := console s @ [''Failed to fetch brand profile:''],
                 storage := (storage s)(''brand_token'' := None),
                 accesses := accesses s @ [RemoveItem ''brand_token''],
                 authorization := None,
                 brand_auth.token := None, brand_auth.user := None, brand_auth.brand := None,
                 brand_auth.loading := False\<rparr>)"
  by (simp add: brand_defs prog_defs browser_defs)

lemma logistics_fetchProfile_fails:
  "logistics_fetchProfile (Inl e) s =
     (Inr (), s\<lparr>requests := requests s @ [Request GET ''/api/logistics/me'' NoBody],
                 console := console s @ [''Failed to fetch logistics profile:''],
                 storage := (storage s)(''logistics_token'' := None),
                 accesses := accesses s @ [RemoveItem ''logistics_token''],
                 authorization := None,
                 logistics_auth.token := None, logistics_auth.user := None, partner := None,
                 logistics_auth.loading := False\<rparr>)"
  by (simp add: logistics_defs prog_defs browser_defs)

lemma admin_fetchProfile_super_fails:
  "storage s ''admin_role'' = Some ''super_admin'' \<Longrightarrow>
   admin_fetchProfile (Inl e) brand_me s =
     (Inr (), s\<lparr>requests := requests s @ [Request GET ''/api/super-admin/me'' NoBody],
                 console := console s @ [''Failed to fetch admin profile:''],
                 storage := (storage s)(''admin_token'' := None, ''admin_user'' := None,
                                        ''admin_role'' := None, ''admin_brand'' := None),
                 accesses := accesses s @ [GetItem ''admin_role'', RemoveItem ''admin_token'',
                    RemoveItem ''admin_user'', RemoveItem ''admin_role'', RemoveItem ''admin_brand''],
                 authorization := None,
                 admin_auth.token := None, admin_auth.user := None, role := None,
                 admin_auth.brand := None, admin_auth.loading := False\<rparr>)"
  by (simp add: admin_defs prog_defs browser_defs)

lemma admin_fetchProfile_brand_fails:
  "storage s ''admin_role'' = Some ''brand_admin'' \<Longrightarrow>
   admin_fetchProfile super_me (Inl e) s =
     (Inr (), s\<lparr>requests := requests s @ [Request GET ''/api/brand-admin/me'' NoBody],
                 console := console s @ [''Failed to fetch admin profile:''],
                 storage := (storage s)(''admin_token'' := None, ''admin_user'' := None,
                                        ''admin_role'' := None, ''admin_brand'' := None),
                 accesses := accesses s @ [GetItem ''admin_role'', RemoveItem ''admin_token'',
                    RemoveItem ''admin_user'', RemoveItem ''admin_role'', RemoveItem ''admin_brand''],
                 authorization := None,
                 admin_auth.token := None, admin_auth.user := None, role := None,
                 admin_auth.brand := None, admin_auth.loading := False\<rparr>)"
  by (simp add: admin_defs prog_defs browser_defs)

text \<open>
  C10. In the brand, logistics and admin providers, when the request of \<open>fetchProfile\<close>
  fails the provider logs out: \<open>fetchProfile\<close> returns without throwing, the provider's
  token key is no longer in localStorage, the Authorization header is deleted, \<open>user\<close>
  and \<open>token\<close> are null, and \<open>isAuthenticated\<close> is false. (The admin provider makes
  the request that its stored role names.)
\<close>

theorem fetchProfile_failure_logs_out:
  "(fst (brand_fetchProfile (Inl e) sb) = Inr () \<and>
    storage (snd (brand_fetchProfile (Inl e) sb)) ''brand_token'' = None \<and>
    authorization (snd (brand_fetchProfile (Inl e) sb)) = None \<and>
    brand_auth.user (snd (brand_fetchProfile (Inl e) sb)) = None \<and>
    brand_auth.token (snd (brand_fetchProfile (Inl e) sb)) = None \<and>
    \<not> brand_isAuthenticated (snd (brand_fetchProfile (Inl e) sb))) \<and>
   (fst (logistics_fetchProfile (Inl e) sl) = Inr () \<and>
    storage (snd (logistics_fetchProfile (Inl e) sl)) ''logistics_token'' = None \<and>
    authorization (snd (logistics_fetchProfile (Inl e) sl)) = None \<and>
    logistics_auth.user (snd (logistics_fetchProfile (Inl e) sl)) = None \<and>
    logistics_auth.token (snd (logistics_fetchProfile (Inl e) sl)) = None \<and>
    \<not> logistics_isAuthenticated (snd (logistics_fetchProfile (Inl e) sl))) \<and>
   (storage sa ''admin_role'' = Some ''super_admin'' \<longrightarrow>
    fst (admin_fetchProfile (Inl e) brand_me sa) = Inr () \<and>
    storage (snd (admin_fetchProfile (Inl e) brand_me sa)) ''admin_token'' = None \<and>
    authorization (snd (admin_fetchProfile (Inl e) brand_me sa)) = None \<and>
    admin_auth.user (snd (admin_fetchProfile (Inl e) brand_me sa)) = None \<and>
    admin_auth.token (snd (admin_fetchProfile (Inl e) brand_me sa)) = None \<and>
    \<not> admin_isAuthenticated (snd (admin_fetchProfile (Inl e) brand_me sa))) \<and>
   (storage sa ''admin_role'' = Some ''brand_admin'' \<longrightarrow>
    fst (admin_fetchProfile super_me (Inl e) sa) = Inr () \<and>
    storage (snd (admin_fetchProfile super_me (Inl e) sa)) ''admin_token'' = None \<and>
    authorization (snd (admin_fetchProfile super_me (Inl e) sa)) = None \<and>
    admin_auth.user (snd (admin_fetchProfile super_me (Inl e) sa)) = None \<and>
    admin_auth.token (snd (admin_fetchProfile super_me (Inl e) sa)) = None \<and>
    \<not> admin_isAuthenticated (snd (admin_fetchProfile super_me (Inl e) sa)))"
  by (simp add: brand_fetchProfile_fails logistics_fetchProfile_fails
      admin_fetchProfile_super_fails admin_fetchProfile_brand_fails
      brand_isAuthenticated_def logistics_isAuthenticated_def admin_isAuthenticated_def)

text \<open>
  The theorem at signed-in providers whose profile request is rejected; the admin is
  once a super admin and once a brand admin.
\<close>

theorem fetchProfile_failure_logs_out_witness:
  "brand_isAuthenticated signed_in_brand \<and>
   \<not> brand_isAuthenticated (snd (brand_fetchProfile (Inl (HttpError None)) signed_in_brand)) \<and>
   storage (snd (brand_fetchProfile (Inl (HttpError None)) signed_in_brand)) ''brand_token'' = None \<and>
   logistics_isAuthenticated signed_in_logistics \<and>
   \<not> logistics_isAuthenticated
        (snd (logistics_fetchProfile (Inl (HttpError None)) signed_in_logistics)) \<and>
   storage (signed_in_admin ''super_admin'') ''admin_role'' = Some ''super_admin'' \<and>
   admin_isAuthenticated (signed_in_admin ''super_admin'') \<and>
   \<not> admin_isAuthenticated (snd (admin_fetchProfile (Inl (HttpError None))
        (Inr (Obj ''u'', Obj ''b'')) (signed_in_admin ''super_admin''))) \<and>
   storage (snd (admin_fetchProfile (Inl (HttpError None))
        (Inr (Obj ''u'', Obj ''b'')) (signed_in_admin ''super_admin''))) ''admin_token'' = None \<and>
   storage (signed_in_admin ''brand_admin'') ''admin_role'' = Some ''brand_admin'' \<and>
   \<not> admin_isAuthenticated (snd (admin_fetchProfile (Inr (Obj ''u''))
        (Inl (HttpError None)) (signed_in_admin ''brand_admin'')))"
proof -
  have r1: "storage (signed_in_admin ''super_admin'') ''admin_role'' = Some ''super_admin''"
   and r2: "storage (signed_in_admin ''brand_admin'') ''admin_role'' = Some ''brand_admin''"
   and i: "brand_isAuthenticated signed_in_brand" "logistics_isAuthenticated signed_in_logistics"
          "admin_isAuthenticated (signed_in_admin ''super_admin'')"
    by (simp_all add: signed_in_admin_def signed_in_brand_def signed_in_logistics_def
        brand_isAuthenticated_def logistics_isAuthenticated_def admin_isAuthenticated_def)
  show ?thesis
    using fetchProfile_failure_logs_out [of "HttpError None" signed_in_brand signed_in_logistics
        "signed_in_admin ''super_admin''" "Inr (Obj ''u'', Obj ''b'')" "Inr (Obj ''u'')"]
      fetchProfile_failure_logs_out [of "HttpError None" signed_in_brand signed_in_logistics
        "signed_in_admin ''brand_admin''" "Inr (Obj ''u'', Obj ''b'')" "Inr (Obj ''u'')"]
      r1 r2 i
    by simp
qed



section \<open>The keys of localStorage\<close>


lemma confined_mono: "confined K m \<Longrightarrow> K \<subseteq> K' \<Longrightarrow> confined K' m"
  unfolding confined_def by blast

lemma forEach_send:
  "forEach (\<lambda>item. send (f item)) xs s = (Inr (), s\<lparr>requests := requests s @ map f xs\<rparr>)"
  by (induction xs arbitrary: s) (simp_all add: prog_defs send_def)

lemma confined_fetchCart: "confined {} (fetchCart got)"
  by (cases got) (simp_all add: confined_def touched_def cart_defs prog_defs browser_defs)

lemma confined_addToCart: "confined {} (addToCart pid q v posted got)"
  by (cases posted; cases got)
     (simp_all add: confined_def touched_def cart_defs prog_defs browser_defs)

lemma confined_removeFromCart: "confined {} (removeFromCart pid posted got)"
  by (cases posted; cases got)
     (simp_all add: confined_def touched_def cart_defs prog_defs browser_defs)

lemma confined_updateCart: "confined {} (updateCart ls posted got)"
  by (cases posted; cases got)
     (simp_all add: confined_def touched_def cart_defs prog_defs browser_defs)

lemma confined_clearCart: "confined {} (clearCart posted)"
  by (cases posted) (simp_all add: confined_def touched_def cart_defs prog_defs browser_defs)

lemma confined_cart_auth_effect: "confined {} (cart_auth_effect got)"
  by (cases got) (simp_all add: confined_def touched_def cart_defs prog_defs browser_defs)


lemma confined_load_effect: "confined {''localCart''} (load_effect J)"
  by (auto simp add: confined_def touched_def load_effect_def setLocalCart_def JSON_parse_def
      prog_defs browser_defs split: option.splits)

lemma confined_merge_effect: "confined {''localCart''} (merge_effect J)"
  by (auto simp add: confined_def touched_def merge_effect_def JSON_parse_def
      forEach_send [unfolded send_def] cart_defs prog_defs browser_defs split: option.splits)

lemma confined_handleQuantityChange:
  "confined {''localCart''} (handleQuantityChange J pid q posted got)"
  by (cases posted; cases got)
     (auto simp add: confined_def touched_def handleQuantityChange_def setLocalCart_def Let_def
        cart_defs prog_defs browser_defs)

lemma confined_handleRemove: "confined {''localCart''} (handleRemove J pid pname posted got)"
  by (cases posted; cases got)
     (auto simp add: confined_def touched_def handleRemove_def setLocalCart_def Let_def
        cart_defs prog_defs browser_defs)

lemma confined_cart_handleCheckout: "confined {} cart_handleCheckout"
  by (simp add: confined_def touched_def cart_handleCheckout_def prog_defs browser_defs)

lemma confined_handleSubmit: "confined {} (handleSubmit registered)"
  by (cases registered)
     (auto simp add: confined_def touched_def handleSubmit_def register_setLoading_def
        prog_defs browser_defs)

lemma confined_handleCheckout: "confined {} (handleCheckout paid)"
  by (cases paid)
     (auto simp add: confined_def touched_def handleCheckout_def checkout_setLoading_def
        prog_defs browser_defs)

lemma confined_calculateTotals: "confined {} (calculateTotals calculated)"
  by (cases calculated)
     (auto simp add: confined_def touched_def calculateTotals_def setCalculating_def
        setCalculation_def prog_defs browser_defs)

lemma confined_totals_effect: "confined {} (totals_effect calculated)"
  using confined_calculateTotals [of calculated]
  by (auto simp add: confined_def totals_effect_def returns_def)

lemma confined_empty_cart_effect: "confined {} empty_cart_effect"
  by (simp add: confined_def touched_def empty_cart_effect_def prog_defs browser_defs)


lemma confined_brand_init: "confined {''brand_token''} brand_init"
  by (simp add: confined_def touched_def brand_defs prog_defs browser_defs)

lemma confined_brand_logout: "confined {''brand_token''} brand_logout"
  by (simp add: confined_def touched_def brand_defs prog_defs browser_defs)

lemma confined_brand_fetchProfile: "confined {''brand_token''} (brand_fetchProfile me)"
  by (cases me)
     (auto simp add: confined_def touched_def brand_defs prog_defs browser_defs
        split: prod.splits)

lemma confined_brand_token_effect: "confined {''brand_token''} (brand_token_effect me)"
  by (cases me)
     (auto simp add: confined_def touched_def brand_defs prog_defs browser_defs
        split: prod.splits)

lemma confined_brand_login: "confined {''brand_token''} (brand_login mail pass logged)"
  by (cases logged)
     (auto simp add: confined_def touched_def brand_defs prog_defs browser_defs
        split: prod.splits)

lemma confined_brand_register: "confined {''brand_token''} (brand_register data logged)"
  by (cases logged)
     (auto simp add: confined_def touched_def brand_defs prog_defs browser_defs
        split: prod.splits)

lemma confined_logistics_init: "confined {''logistics_token''} logistics_init"
  by (simp add: confined_def touched_def logistics_defs prog_defs browser_defs)

lemma confined_logistics_logout: "confined {''logistics_token''} logistics_logout"
  by (simp add: confined_def touched_def logistics_defs prog_defs browser_defs)

lemma confined_logistics_fetchProfile: "confined {''logistics_token''} (logistics_fetchProfile me)"
  by (cases me)
     (auto simp add: confined_def touched_def logistics_defs prog_defs browser_defs
        split: prod.splits)

lemma confined_logistics_token_effect: "confined {''logistics_token''} (logistics_token_effect me)"
  by (cases me)
     (auto simp add: confined_def touched_def logistics_defs prog_defs browser_defs
        split: prod.splits)

lemma confined_logistics_login: "confined {''logistics_token''} (logistics_login mail pass logged)"
  by (cases logged)
     (auto simp add: confined_def touched_def logistics_defs prog_defs browser_defs
        split: prod.splits)

lemma confined_logistics_register: "confined {''logistics_token''} (logistics_register data logged)"
  by (cases logged)
     (auto simp add: confined_def touched_def logistics_defs prog_defs browser_defs
        split: prod.splits)


lemma confined_admin_init: "confined admin_keys admin_init"
  by (auto simp add: confined_def touched_def admin_keys_def admin_defs prog_defs browser_defs)

lemma confined_admin_logout: "confined admin_keys admin_logout"
  by (auto simp add: confined_def touched_def admin_keys_def admin_defs prog_defs browser_defs)

lemma confined_admin_fetchProfile: "confined admin_keys (admin_fetchProfile super_me brand_me)"
  by (cases super_me; cases brand_me)
     (auto simp add: confined_def touched_def admin_keys_def admin_defs prog_defs browser_defs
        split: prod.splits)

lemma confined_admin_token_effect:
  "confined admin_keys (admin_token_effect J super_me brand_me)"
  by (cases super_me; cases brand_me)
     (auto simp add: confined_def touched_def admin_keys_def admin_defs prog_defs browser_defs
        split: option.splits prod.splits)

lemma confined_admin_login: "confined admin_keys (admin_login J mail pass logged)"
  by (cases logged)
     (auto simp add: confined_def touched_def admin_keys_def admin_defs prog_defs browser_defs
        split: option.splits prod.splits)


lemma touched_logouts:
  "touched (snd (admin_logout sa)) = touched sa \<union> admin_keys"
  "touched (snd (brand_logout sb)) = touched sb \<union> {''brand_token''}"
  "touched (snd (logistics_logout sl)) = touched sl \<union> {''logistics_token''}"
  by (auto simp add: touched_def admin_keys_def admin_defs brand_defs logistics_defs prog_defs
      browser_defs)

lemma touched_cart_effects:
  "touched (snd (load_effect J sc)) \<union> touched (snd (merge_effect J sc))
     = touched sc \<union> {''localCart''}"
  by (auto simp add: touched_def load_effect_def merge_effect_def setLocalCart_def
      JSON_parse_def forEach_send [unfolded send_def] cart_defs prog_defs browser_defs
      split: option.splits)

lemma storage_keys_parts:
  "admin_keys \<subseteq> storage_keys" "{''brand_token''} \<subseteq> storage_keys"
  "{''logistics_token''} \<subseteq> storage_keys" "{''localCart''} \<subseteq> storage_keys"
  "{} \<subseteq> storage_keys"
  "storage_keys = admin_keys \<union> {''brand_token''} \<union> {''logistics_token''} \<union> {''localCart''}"
  by (auto simp add: storage_keys_def admin_keys_def)

lemmas confined_all = confined_fetchCart confined_addToCart confined_removeFromCart
  confined_updateCart confined_clearCart confined_cart_auth_effect confined_load_effect
  confined_merge_effect confined_handleQuantityChange confined_handleRemove
  confined_cart_handleCheckout confined_handleSubmit confined_handleCheckout
  confined_calculateTotals confined_totals_effect confined_empty_cart_effect
  confined_brand_init confined_brand_logout confined_brand_fetchProfile
  confined_brand_token_effect confined_brand_login confined_brand_register
  confined_logistics_init confined_logistics_logout confined_logistics_fetchProfile
  confined_logistics_token_effect confined_logistics_login confined_logistics_register
  confined_admin_init confined_admin_logout confined_admin_fetchProfile
  confined_admin_token_effect confined_admin_login

text \<open>
  C4, as amended. Every localStorage call of the admin, brand and logistics auth
  providers and of CartPage names one of seven keys: \<open>admin_token\<close>, \<open>admin_user\<close>,
  \<open>admin_role\<close>, \<open>admin_brand\<close>, \<open>brand_token\<close>, \<open>logistics_token\<close> and
  \<open>localCart\<close>; CartContext, RegisterPage and the checkout page make no localStorage
  call; and no function of any of them changes what is stored under another key. Each
  of the seven keys is used: the logouts touch the keys of their provider, and the two
  effects of CartPage touch \<open>localCart\<close>.
\<close>

theorem storage_confined:
  "(confined storage_keys admin_init \<and>
    confined storage_keys admin_logout \<and>
    confined storage_keys (admin_fetchProfile super_me brand_me) \<and>
    confined storage_keys (admin_token_effect J super_me brand_me) \<and>
    confined storage_keys (admin_login J mail pass admin_logged)) \<and>
   (confined storage_keys brand_init \<and>
    confined storage_keys brand_logout \<and>
    confined storage_keys (brand_fetchProfile me) \<and>
    confined storage_keys (brand_token_effect me) \<and>
    confined storage_keys (brand_login mail pass logged) \<and>
    confined storage_keys (brand_register data logged)) \<and>
   (confined storage_keys logistics_init \<and>
    confined storage_keys logistics_logout \<and>
    confined storage_keys (logistics_fetchProfile me) \<and>
    confined storage_keys (logistics_token_effect me) \<and>
    confined storage_keys (logistics_login mail pass logged) \<and>
    confined storage_keys (logistics_register data logged)) \<and>
   (confined storage_keys (load_effect J) \<and>
    confined storage_keys (merge_effect J) \<and>
    confined storage_keys (handleQuantityChange J pid q posted got) \<and>
    confined storage_keys (handleRemove J pid pname posted got) \<and>
    confined storage_keys cart_handleCheckout) \<and>
   (confined {} (fetchCart got) \<and>
    confined {} (addToCart pid q v posted got) \<and>
    confined {} (removeFromCart pid posted got) \<and>
    confined {} (updateCart ls posted got) \<and>
    confined {} (clearCart posted) \<and>
    confined {} (cart_auth_effect got)) \<and>
   (confined {} (handleSubmit registered) \<and>
    confined {} (handleCheckout paid) \<and>
    confined {} (calculateTotals calculated) \<and>
    confined {} (totals_effect calculated) \<and>
    confined {} empty_cart_effect) \<and>
   (touched (snd (admin_logout sa)) = touched sa \<union> admin_keys \<and>
    touched (snd (brand_logout sb)) = touched sb \<union> {''brand_token''} \<and>
    touched (snd (logistics_logout sl)) = touched sl \<union> {''logistics_token''} \<and>
    touched (snd (load_effect J sc)) \<union> touched (snd (merge_effect J sc))
      = touched sc \<union> {''localCart''} \<and>
    storage_keys = admin_keys \<union> {''brand_token''} \<union> {''logistics_token''} \<union> {''localCart''})"
  by (intro conjI touched_logouts touched_cart_effects storage_keys_parts confined_all
      confined_mono [OF confined_load_effect] confined_mono [OF confined_merge_effect]
      confined_mono [OF confined_handleQuantityChange] confined_mono [OF confined_handleRemove]
      confined_mono [OF confined_cart_handleCheckout]
      confined_mono [OF confined_brand_init] confined_mono [OF confined_brand_logout]
      confined_mono [OF confined_brand_fetchProfile]
      confined_mono [OF confined_brand_token_effect]
      confined_mono [OF confined_brand_login] confined_mono [OF confined_brand_register]
      confined_mono [OF confined_logistics_init] confined_mono [OF confined_logistics_logout]
      confined_mono [OF confined_logistics_fetchProfile]
      confined_mono [OF confined_logistics_token_effect]
      confined_mono [OF confined_logistics_login] confined_mono [OF confined_logistics_register]
      confined_mono [OF confined_admin_init] confined_mono [OF confined_admin_logout]
      confined_mono [OF confined_admin_fetchProfile]
      confined_mono [OF confined_admin_token_effect]
      confined_mono [OF confined_admin_login])

text \<open>
  The theorem at the logout of a signed-in admin whose browser also stores a key
  \<open>theme\<close>: the logout touches keys of the seven only and leaves \<open>theme\<close> as it was.
\<close>

theorem storage_confined_witness:
  "''theme'' \<notin> storage_keys \<and>
   touched (snd (admin_logout (signed_in_admin ''super_admin''))) \<subseteq> storage_keys \<and>
   storage (snd (admin_logout (signed_in_admin ''super_admin''))) ''theme'' = Some ''dark''"
proof -
  have "confined storage_keys (admin_logout :: (admin_auth, unit) prog)"
    by (rule storage_confined [THEN conjunct1, THEN conjunct2, THEN conjunct1])
  then have
    "touched (snd (admin_logout (signed_in_admin ''super_admin'')))
       \<subseteq> touched (signed_in_admin ''super_admin'') \<union> storage_keys \<and>
     (''theme'' \<notin> storage_keys \<longrightarrow>
        storage (snd (admin_logout (signed_in_admin ''super_admin''))) ''theme''
          = storage (signed_in_admin ''super_admin'') ''theme'')"
    unfolding confined_def by blast
  then show ?thesis
    by (simp add: signed_in_admin_def storage_keys_def touched_def)
qed

text \<open>
  C4 as it is written fails: the logout of the admin provider removes \<open>admin_user\<close>,
  which is none of the four keys \<open>admin_token\<close>, \<open>brand_token\<close>, \<open>logistics_token\<close>
  and \<open>localCart\<close>.
\<close>

theorem storage_four_keys_counterexample:
  "''admin_user'' \<notin> spec_keys \<and>
   ''admin_user'' \<in> touched (snd (admin_logout (signed_in_admin ''super_admin''))) \<and>
   storage (signed_in_admin ''super_admin'') ''admin_user'' = Some ''u'' \<and>
   storage (snd (admin_logout (signed_in_admin ''super_admin''))) ''admin_user'' = None"
  by (simp add: spec_keys_def touched_def signed_in_admin_def admin_defs prog_defs browser_defs)

end
